theory Spec2Isabelle
  imports Complex_Main "HOL-Library.Word" "HOL-Library.Monad_Syntax" "HOL-Library.Log_Nat"
begin

section \<open>Conventions of the embedding\<close>

text \<open>
  The development embeds the pattern-learning engine (\<^verbatim>\<open>autonomousLearning.ts\<close>), the
  edit-pattern classifier of the predictive assistant and the similarity engine of the
  pattern analyzer.

  \<^item> A JavaScript string is a \<^typ>\<open>string\<close>; a character stands for one code unit below 256,
    so \<^verbatim>\<open>length\<close> is the \<^verbatim>\<open>.length\<close> of the source on such strings.
  \<^item> A JavaScript number that holds a count or a line number is a \<^typ>\<open>nat\<close> or an
    \<^typ>\<open>int\<close>. A score or a confidence is the \<^typ>\<open>real\<close> that the binary64 value
    denotes. In the learning system every sum, product and quotient of such numbers is
    rounded as IEEE 754 prescribes, and a decimal literal stands for the binary64 value
    nearest to it (section \<open>Binary64 arithmetic\<close>). In the pattern analyzer the
    score is kept as the exact sum of its terms: what is proved of it is a lower bound
    with a margin of 0.05, and each of the fewer than thirty roundings of the source moves
    a score of at most 1 by at most \<open>2 ^ -53\<close>. Where the source can compute
    \<^verbatim>\<open>0/0\<close> there, the result is an explicit \<^verbatim>\<open>NaN\<close>.
  \<^item> The \<^verbatim>\<open>Map\<close> of learned patterns is an association list in insertion order, which
    is the order \<^verbatim>\<open>Map.values()\<close> and \<^verbatim>\<open>Map.entries()\<close> iterate in.
  \<^item> \<^verbatim>\<open>new Date()\<close> is a clock reading handed to the function.
\<close>

section \<open>String primitives\<close>

text \<open>The class \<^verbatim>\<open>\s\<close> of a JavaScript regular expression, on code units below 256:
  tab, line feed, vertical tab, form feed, carriage return, space, no-break space.\<close>

definition isSpace :: "char \<Rightarrow> bool" where
  "isSpace c = (c \<in> set [CHR 0x09, CHR 0x0A, CHR 0x0B, CHR 0x0C, CHR 0x0D, CHR 0x20, CHR 0xA0])"

text \<open>\<^verbatim>\<open>String.prototype.trim\<close>.\<close>

definition trim :: "string \<Rightarrow> string" where
  "trim s = rev (dropWhile isSpace (rev (dropWhile isSpace s)))"

text \<open>\<^verbatim>\<open>s.startsWith(p)\<close> and \<^verbatim>\<open>s.includes(t)\<close>.\<close>

fun startsWith :: "string \<Rightarrow> string \<Rightarrow> bool" where
  "startsWith s [] = True"
| "startsWith [] (p # ps) = False"
| "startsWith (c # cs) (p # ps) = (c = p \<and> startsWith cs ps)"

fun includesStr :: "string \<Rightarrow> string \<Rightarrow> bool" where
  "includesStr [] t = (t = [])"
| "includesStr (c # cs) t = (startsWith (c # cs) t \<or> includesStr cs t)"

text \<open>\<^verbatim>\<open>s.split(/\s+/)\<close>: the pieces between maximal runs of white space. A string that
  starts (ends) with white space yields an empty first (last) piece, and the empty string
  yields one empty piece. The flag says that the previous character was white space.\<close>

fun splitWsAcc :: "bool \<Rightarrow> string \<Rightarrow> string \<Rightarrow> string list" where
  "splitWsAcc inSep cur [] = [rev cur]"
| "splitWsAcc inSep cur (c # cs) =
     (if isSpace c
      then (if inSep then splitWsAcc True [] cs else rev cur # splitWsAcc True [] cs)
      else splitWsAcc False (c # cur) cs)"

definition splitWs :: "string \<Rightarrow> string list" where
  "splitWs s = splitWsAcc False [] s"

text \<open>\<^verbatim>\<open>s.replace(/\s+/g, ' ')\<close>: every maximal run of white space becomes one space.\<close>

fun collapseWsAcc :: "bool \<Rightarrow> string \<Rightarrow> string" where
  "collapseWsAcc inSep [] = []"
| "collapseWsAcc inSep (c # cs) =
     (if isSpace c
      then (if inSep then collapseWsAcc True cs else CHR 0x20 # collapseWsAcc True cs)
      else c # collapseWsAcc False cs)"

definition collapseWs :: "string \<Rightarrow> string" where
  "collapseWs s = collapseWsAcc False s"

text \<open>\<^verbatim>\<open>s.split('\n')\<close>, for any separating character.\<close>

fun splitOn :: "char \<Rightarrow> string \<Rightarrow> string list" where
  "splitOn sep [] = [[]]"
| "splitOn sep (c # cs) =
     (let r = splitOn sep cs in if c = sep then [] # r else (c # hd r) # tl r)"

text \<open>\<^verbatim>\<open>(s.match(/a1|a2|...|an/g) || []).length\<close> for non-empty literal alternatives:
  the scan goes left to right, the first alternative that matches at a position wins,
  and the scan resumes after the match.\<close>

function countMatches :: "string list \<Rightarrow> string \<Rightarrow> nat" where
  "countMatches alts [] = 0"
| "countMatches alts (c # cs) =
     (case find (startsWith (c # cs)) alts of
        Some a \<Rightarrow> Suc (countMatches alts (drop (length a - 1) cs))
      | None \<Rightarrow> countMatches alts cs)"
  by pat_completeness auto
termination
  by (relation "measure (\<lambda>(alts, s). length s)") auto

text \<open>Word characters of \<^verbatim>\<open>\w\<close> and \<^verbatim>\<open>\b\<close>: letters, digits and the underscore.\<close>

definition isDigit :: "char \<Rightarrow> bool" where
  "isDigit c = (c \<in> set ''0123456789'')"

definition isWordChar :: "char \<Rightarrow> bool" where
  "isWordChar c =
     (c \<in> set ''abcdefghijklmnopqrstuvwxyzABCDEFGHIJKLMNOPQRSTUVWXYZ0123456789_'')"

text \<open>The maximal runs of word characters of a string, left to right.\<close>

fun wordRunsAcc :: "string \<Rightarrow> string \<Rightarrow> string list" where
  "wordRunsAcc cur [] = (if cur = [] then [] else [rev cur])"
| "wordRunsAcc cur (c # cs) =
     (if isWordChar c then wordRunsAcc (c # cur) cs
      else (if cur = [] then [] else [rev cur]) @ wordRunsAcc [] cs)"

definition wordRuns :: "string \<Rightarrow> string list" where
  "wordRuns s = wordRunsAcc [] s"

text \<open>\<^verbatim>\<open>[...new Set(xs)]\<close>: the first occurrence of every element, in order.\<close>

definition dedupe :: "'a list \<Rightarrow> 'a list" where
  "dedupe xs = rev (remdups (rev xs))"

section \<open>Binary64 arithmetic\<close>

text \<open>The numbers of the source are IEEE 754 binary64 values, and an operation on them
  is the exact operation followed by the rounding to the nearest binary64 value, ties
  going to the even significand.

  For a positive \<open>x\<close>, \<^verbatim>\<open>floorLog2 x\<close> is the integer \<open>k\<close> with \<open>2 ^ k \<le> x < 2 ^ (k + 1)\<close>.
  The binary64 values from \<open>2 ^ k\<close> to \<open>2 ^ (k + 1)\<close> are the multiples of \<open>2 ^ (k - 52)\<close>
  (53 significant bits); below \<open>2 ^ -1022\<close>, in the subnormal range, they are the multiples
  of \<open>2 ^ -1074\<close>. \<^verbatim>\<open>round64 x\<close> is the multiple nearest to \<open>x\<close>, the even one of two that
  are equally near. The overflow to \<^verbatim>\<open>Infinity\<close> at \<open>2 ^ 1024\<close> is left out: the
  confidences and relevances of the learning system are at most 1, and its other operands
  are counters and a capacity.\<close>

definition floorLog2 :: "real \<Rightarrow> int" where
  "floorLog2 x = (if 1 \<le> x then int (floorlog 2 (nat \<lfloor>x\<rfloor>)) - 1
                  else - int (floorlog 2 (nat (\<lceil>1 / x\<rceil> - 1))))"

definition roundHalfEven :: "real \<Rightarrow> int" where
  "roundHalfEven y =
     (let f = \<lfloor>y\<rfloor>; r = y - of_int f
      in if r < 1 / 2 then f else if 1 / 2 < r then f + 1 else if even f then f else f + 1)"

definition round64 :: "real \<Rightarrow> real" where
  "round64 x =
     (if x = 0 then 0
      else let e = max (floorLog2 \<bar>x\<bar>) (- 1022) - 52
           in sgn x * (of_int (roundHalfEven (\<bar>x\<bar> / 2 powi e)) * 2 powi e))"

text \<open>The operators \<^verbatim>\<open>+\<close>, \<^verbatim>\<open>*\<close> and \<^verbatim>\<open>/\<close> of the source on two binary64 values. A
  literal of the source is written \<^verbatim>\<open>round64\<close> of its decimal value, except where that
  value is a binary fraction (0.5, 0.25, 1, 100), which the rounding leaves as it is.\<close>

definition fadd :: "real \<Rightarrow> real \<Rightarrow> real" where
  "fadd x y = round64 (x + y)"

definition fmul :: "real \<Rightarrow> real \<Rightarrow> real" where
  "fmul x y = round64 (x * y)"

definition fdiv :: "real \<Rightarrow> real \<Rightarrow> real" where
  "fdiv x y = round64 (x / y)"

section \<open>Data model of the learning system\<close>

datatype fragment_type = funcao | classe | variavel | bloco | importacao | loop | condicao

record CodeFragment =
  content :: string
  ftype :: fragment_type
  fcontext :: string
  lineCount :: int
  complexity :: real

record LearnedPattern =
  pid :: string
  codigo :: string
  contexto :: string
  frequencia :: nat
  ultimoUso :: nat
  gatilhos :: "string list"
  tipoArquivo :: string
  confianca :: real
  variacoes :: "string list"

type_synonym store = "(string \<times> LearnedPattern) list"

definition MIN_PATTERN_LENGTH :: nat where
  "MIN_PATTERN_LENGTH = 12"

definition MAX_PATTERNS :: nat where
  "MAX_PATTERNS = 1000"

text \<open>\<^verbatim>\<open>Map.get\<close>, \<^verbatim>\<open>Map.set\<close> (a present key keeps its place, a new key goes last).\<close>

definition mapGet :: "store \<Rightarrow> string \<Rightarrow> LearnedPattern option" where
  "mapGet st k = map_of st k"

fun mapSet :: "store \<Rightarrow> string \<Rightarrow> LearnedPattern \<Rightarrow> store" where
  "mapSet [] k v = [(k, v)]"
| "mapSet ((k', v') # st) k v = (if k' = k then (k, v) # st else (k', v') # mapSet st k v)"

section \<open>Heuristics on a fragment\<close>

text \<open>\<^verbatim>\<open>calculateComplexity\<close>: base 1, plus the control keywords, plus the function
  introducers, plus half the number of opening braces and brackets. Every intermediate
  value is a multiple of one half bounded by twice the length of the text, which binary64
  holds exactly, so the sums are written without rounding.\<close>

definition calculateComplexity :: "string \<Rightarrow> real" where
  "calculateComplexity code =
     1 + real (countMatches [''if'', ''else'', ''for'', ''while'', ''switch'', ''try'', ''catch''] code)
       + real (countMatches [''function'', ''=>''] code)
       + real (countMatches [''{'', ''[''] code) * 0.5"

text \<open>\<^verbatim>\<open>hasGoodStructure\<close>: the braces opened and closed over all lines balance
  (\<^verbatim>\<open>indentationConsistent\<close> is never reset from \<^verbatim>\<open>true\<close>).\<close>

definition hasGoodStructure :: "string \<Rightarrow> bool" where
  "hasGoodStructure code =
     (foldl (\<lambda>braceBalance line.
               braceBalance + int (countMatches [''{''] line) - int (countMatches [''}''] line))
        0 (splitOn CHR 0x0A code) = 0)"

text \<open>\<^verbatim>\<open>calculatePatternConfidence\<close>, statement by statement.\<close>

definition calculatePatternConfidence :: "CodeFragment \<Rightarrow> real" where
  "calculatePatternConfidence fragment =
     (let confidence = 0.5;
          confidence = fadd confidence
                         (min (round64 0.3) (fmul (complexity fragment) (round64 0.1)));
          confidence = (case ftype fragment of
                          funcao \<Rightarrow> fadd confidence (round64 0.2)
                        | classe \<Rightarrow> fadd confidence 0.25
                        | importacao \<Rightarrow> fadd confidence (round64 0.15)
                        | _ \<Rightarrow> confidence);
          confidence = (if hasGoodStructure (content fragment)
                        then fadd confidence (round64 0.1) else confidence)
      in min 1 confidence)"

text \<open>\<^verbatim>\<open>extractTriggers\<close>. A match of \<^verbatim>\<open>\b(function|...|export)\b\<close> is a maximal run of
  word characters that is one of the keywords; a match of
  \<^verbatim>\<open>\b[a-zA-Z_][a-zA-Z0-9_]*\b\<close> is a maximal run that does not start with a digit.\<close>

definition triggerKeywords :: "string list" where
  "triggerKeywords = [''function'', ''class'', ''const'', ''let'', ''var'', ''if'', ''for'',
     ''while'', ''return'', ''import'', ''export'']"

definition extractTriggers :: "string \<Rightarrow> string \<Rightarrow> string list" where
  "extractTriggers code ctx =
     (let keywords = filter (\<lambda>w. w \<in> set triggerKeywords) (wordRuns code);
          names = filter (\<lambda>w. \<not> isDigit (hd w)) (wordRuns code);
          contextWords = filter (\<lambda>word. length word > 3) (splitWs ctx)
      in dedupe (keywords @ take 5 names @ take 3 contextWords))"

text \<open>\<^verbatim>\<open>simpleHash\<close>: \<^verbatim>\<open>hash = ((hash << 5) - hash) + char\<close> brought back to 32 bits
  after every character, then \<^verbatim>\<open>Math.abs(hash).toString(36)\<close>.\<close>

definition digit36 :: "nat \<Rightarrow> char" where
  "digit36 d = ''0123456789abcdefghijklmnopqrstuvwxyz'' ! d"

function toString36 :: "nat \<Rightarrow> string" where
  "toString36 n = (if n < 36 then [digit36 n] else toString36 (n div 36) @ [digit36 (n mod 36)])"
  by pat_completeness auto
termination
  by (relation "measure id") auto

definition hashStep :: "32 word \<Rightarrow> char \<Rightarrow> 32 word" where
  "hashStep hash c = (push_bit 5 hash - hash) + of_nat (of_char c)"

definition simpleHash :: "string \<Rightarrow> string" where
  "simpleHash str = toString36 (nat \<bar>sint (foldl hashStep 0 str)\<bar>)"

definition generatePatternId :: "string \<Rightarrow> string" where
  "generatePatternId code = ''pattern_'' @ simpleHash (trim (collapseWs code))"

section \<open>The worth-learning filter\<close>

text \<open>\<^verbatim>\<open>calculateCodeSimilarity\<close>: Jaccard index of the two sets of white-space separated
  pieces. Both sets hold at least one piece, so the union is never empty.\<close>

definition calculateCodeSimilarity :: "string \<Rightarrow> string \<Rightarrow> real" where
  "calculateCodeSimilarity code1 code2 =
     (let set1 = dedupe (splitWs code1);
          set2 = dedupe (splitWs code2);
          intersection = filter (\<lambda>x. x \<in> set set2) set1;
          union = dedupe (set1 @ set2)
      in fdiv (real (length intersection)) (real (length union)))"

text \<open>\<^verbatim>\<open>findSimilarPattern\<close>: the first stored pattern, in iteration order, whose code is
  more than 0.8 similar.\<close>

fun findSimilarPattern :: "store \<Rightarrow> string \<Rightarrow> LearnedPattern option" where
  "findSimilarPattern [] code = None"
| "findSimilarPattern ((k, pattern) # st) code =
     (if calculateCodeSimilarity code (codigo pattern) > round64 0.8 then Some pattern
      else findSimilarPattern st code)"

text \<open>\<^verbatim>\<open>isWorthLearning\<close> and its companion \<^verbatim>\<open>reasonNotWorth\<close>.\<close>

definition isWorthLearning :: "store \<Rightarrow> CodeFragment \<Rightarrow> bool" where
  "isWorthLearning st fragment =
     (if length (content fragment) < MIN_PATTERN_LENGTH then False
      else if lineCount fragment > 50 then False
      else if complexity fragment < 1 then False
      else (case findSimilarPattern st (content fragment) of
              Some similar \<Rightarrow> (if confianca similar > round64 0.9 then False else True)
            | None \<Rightarrow> True))"

definition reasonNotWorth :: "store \<Rightarrow> CodeFragment \<Rightarrow> string" where
  "reasonNotWorth st fragment =
     (if length (content fragment) < MIN_PATTERN_LENGTH then ''curto''
      else if lineCount fragment > 50 then ''longo''
      else if complexity fragment < 1 then ''complexidade''
      else (case findSimilarPattern st (content fragment) of
              Some similar \<Rightarrow>
                (if confianca similar > round64 0.9 then ''similar-existente''
                 else ''desconhecido'')
            | None \<Rightarrow> ''desconhecido''))"

section \<open>Learning, reinforcement and eviction\<close>

text \<open>\<^verbatim>\<open>cleanupOldPatterns\<close>: the entries are sorted by descending
  \<^verbatim>\<open>frequencia * confianca\<close>, the product being the rounded one (the comparator returns
  the difference of two such products, whose sign is the sign of the exact difference,
  and the sort of the platform is stable); the map is cleared and the first
  \<^verbatim>\<open>Math.floor(MAX_PATTERNS * 0.8)\<close> entries are set again. The capacity is a parameter;
  the source fixes it to \<^const>\<open>MAX_PATTERNS\<close>.\<close>

definition entryScore :: "string \<times> LearnedPattern \<Rightarrow> real" where
  "entryScore e = fmul (real (frequencia (snd e))) (confianca (snd e))"

definition keepCount :: "nat \<Rightarrow> nat" where
  "keepCount cap = nat \<lfloor>fmul (real cap) (round64 0.8)\<rfloor>"

definition cleanupOldPatterns :: "nat \<Rightarrow> store \<Rightarrow> store" where
  "cleanupOldPatterns cap st =
     (let patterns = sort_key (\<lambda>e. - entryScore e) st
      in foldl (\<lambda>m e. mapSet m (fst e) (snd e)) [] (take (keepCount cap) patterns))"

text \<open>\<^verbatim>\<open>learnFromFragment\<close>, with the language of the document and the clock reading.\<close>

definition learnFromFragment :: "nat \<Rightarrow> store \<Rightarrow> CodeFragment \<Rightarrow> string \<Rightarrow> nat \<Rightarrow> store" where
  "learnFromFragment cap st fragment languageId now =
     (let patternId = generatePatternId (content fragment) in
      case mapGet st patternId of
        Some existing \<Rightarrow>
          mapSet st patternId
            (existing\<lparr> frequencia := frequencia existing + 1,
                       ultimoUso := now,
                       variacoes := (if content fragment \<in> set (variacoes existing)
                                     then variacoes existing
                                     else variacoes existing @ [content fragment]) \<rparr>)
      | None \<Rightarrow>
          (let newPattern = \<lparr> pid = patternId,
                               codigo = content fragment,
                               contexto = fcontext fragment,
                               frequencia = 1,
                               ultimoUso = now,
                               gatilhos = extractTriggers (content fragment) (fcontext fragment),
                               tipoArquivo = languageId,
                               confianca = calculatePatternConfidence fragment,
                               variacoes = [] \<rparr>;
               st' = mapSet st patternId newPattern
           in if length st' > cap then cleanupOldPatterns cap st' else st'))"

text \<open>The loop of \<^verbatim>\<open>processCodeFragment\<close> over the extracted fragments, each with the
  clock reading of its turn: a fragment is learned when the filter accepts it, and
  skipped otherwise. (The write to the persistent storage that follows does not change
  the map.)\<close>

fun processFragments :: "nat \<Rightarrow> store \<Rightarrow> string \<Rightarrow> (CodeFragment \<times> nat) list \<Rightarrow> store" where
  "processFragments cap st languageId [] = st"
| "processFragments cap st languageId ((fragmento, now) # rest) =
     processFragments cap
       (if isWorthLearning st fragmento then learnFromFragment cap st fragmento languageId now
        else st)
       languageId rest"

section \<open>Suggestions for a typing context\<close>

text \<open>The editor document, as far as the learning system reads it: its language tag, its
  number of lines, and \<^verbatim>\<open>getText(new Range(start, 0, end, 0))\<close> as a function of the two
  line numbers.\<close>

record TextDocument =
  languageId :: string
  docLineCount :: int
  getText :: "int \<Rightarrow> int \<Rightarrow> string"

definition extractContext :: "TextDocument \<Rightarrow> int \<Rightarrow> string" where
  "extractContext document line =
     (let start = max 0 (line - 3);
          end' = min (docLineCount document - 1) (line + 3)
      in getText document start end')"

record SuggestedSnippet =
  title :: "string option"
  description :: "string option"
  language :: "string option"
  code :: string
  pattern :: "string option"
  similarity :: "real option"

text \<open>Decimal digits of a non-negative integer, as a template literal prints it, and
  \<^verbatim>\<open>Math.round\<close> (the nearest integer, a half going up; it is exact).\<close>

function showNat :: "nat \<Rightarrow> string" where
  "showNat n = (if n < 10 then [digit36 n] else showNat (n div 10) @ [digit36 (n mod 10)])"
  by pat_completeness auto
termination
  by (relation "measure id") auto

definition mathRound :: "real \<Rightarrow> int" where
  "mathRound x = \<lfloor>x + 1 / 2\<rfloor>"

text \<open>A match of \<^verbatim>\<open>kw\s+(\w+)\<close> at the start of a string, for a literal \<^verbatim>\<open>kw\<close>, and
  the first match of \<^verbatim>\<open>(kw1|...|kwn)\s+(\w+)\<close> anywhere in a string: the group
  \<^verbatim>\<open>(\w+)\<close> of the match.\<close>

definition matchHere :: "string \<Rightarrow> string \<Rightarrow> string option" where
  "matchHere s kw =
     (let rest = drop (length kw) s;
          name = takeWhile isWordChar (dropWhile isSpace rest)
      in if startsWith s kw \<and> rest \<noteq> [] \<and> isSpace (hd rest) \<and> name \<noteq> []
         then Some name else None)"

fun matchAfterAny :: "string list \<Rightarrow> string \<Rightarrow> string option" where
  "matchAfterAny kws [] = None"
| "matchAfterAny kws (c # cs) =
     (case find (\<lambda>kw. matchHere (c # cs) kw \<noteq> None) kws of
        Some kw \<Rightarrow> matchHere (c # cs) kw
      | None \<Rightarrow> matchAfterAny kws cs)"

text \<open>\<^verbatim>\<open>generateSuggestionTitle\<close>. The accented letters of the Portuguese texts are
  the code units E7, E3, E1 and F3.\<close>

definition generateSuggestionTitle :: "LearnedPattern \<Rightarrow> string" where
  "generateSuggestionTitle p =
     (let lines = splitOn CHR 0x0A (codigo p);
          firstLine = trim (hd lines)
      in if includesStr firstLine ''function''
         then (case matchAfterAny [''function''] firstLine of
                 Some m \<Rightarrow> ''Fun'' @ [CHR 0xE7, CHR 0xE3] @ ''o: '' @ m
               | None \<Rightarrow> ''Fun'' @ [CHR 0xE7, CHR 0xE3] @ ''o aprendida'')
         else if includesStr firstLine ''class''
         then (case matchAfterAny [''class''] firstLine of
                 Some m \<Rightarrow> ''Classe: '' @ m
               | None \<Rightarrow> ''Classe aprendida'')
         else if includesStr firstLine ''const'' \<or> includesStr firstLine ''let''
                 \<or> includesStr firstLine ''var''
         then (case matchAfterAny [''const'', ''let'', ''var''] firstLine of
                 Some m \<Rightarrow> ''Vari'' @ [CHR 0xE1] @ ''vel: '' @ m
               | None \<Rightarrow> ''Vari'' @ [CHR 0xE1] @ ''vel aprendida'')
         else take 30 firstLine @ (if length firstLine > 30 then ''...'' else []))"

text \<open>\<^verbatim>\<open>analyzeTypingContext\<close>: the distinct pieces of the current line and of the
  context that are longer than two characters.\<close>

definition analyzeTypingContext :: "string \<Rightarrow> string \<Rightarrow> string list" where
  "analyzeTypingContext currentLine ctx =
     dedupe (filter (\<lambda>w. length w > 2) (splitWs currentLine)
             @ filter (\<lambda>w. length w > 2) (splitWs ctx))"

text \<open>\<^verbatim>\<open>calculateRelevance\<close>, statement by statement.\<close>

definition calculateRelevance :: "LearnedPattern \<Rightarrow> string list \<Rightarrow> string \<Rightarrow> real" where
  "calculateRelevance p typingContext lang =
     (let relevance = 0;
          relevance = (if tipoArquivo p = lang then fadd relevance (round64 0.2) else relevance);
          relevance = fadd relevance (fmul (confianca p) (round64 0.3));
          relevance = fadd relevance
                        (min (round64 0.2) (fmul (real (frequencia p)) (round64 0.02)));
          matchingTriggers =
            length (filter (\<lambda>trigger.
                      list_ex (\<lambda>word. includesStr word trigger \<or> includesStr trigger word)
                        typingContext)
                    (gatilhos p));
          relevance = (if length (gatilhos p) > 0
                       then fadd relevance
                              (fmul (fdiv (real matchingTriggers) (real (length (gatilhos p))))
                                 (round64 0.3))
                       else relevance)
      in min 1 relevance)"

text \<open>The relevance as the specification words it, in exact arithmetic: 0.2 for the
  language, 0.3 times the confidence, the smaller of 0.2 and 0.02 times the frequency, and
  0.3 times the fraction of matching triggers, clamped to at most 1. It is compared with
  \<^const>\<open>calculateRelevance\<close> below.\<close>

definition specRelevance :: "LearnedPattern \<Rightarrow> string list \<Rightarrow> string \<Rightarrow> real" where
  "specRelevance p typingContext lang =
     min 1 ((if tipoArquivo p = lang then 0.2 else 0)
            + 0.3 * confianca p
            + min 0.2 (0.02 * real (frequencia p))
            + 0.3 * (if gatilhos p = [] then 0
                     else real (length (filter (\<lambda>trigger. \<exists>word\<in>set typingContext.
                                   includesStr word trigger \<or> includesStr trigger word)
                                 (gatilhos p)))
                          / real (length (gatilhos p))))"

text \<open>\<^verbatim>\<open>getSuggestionsForContext\<close>: the loop over the stored patterns (named
  \<^verbatim>\<open>candidateSuggestions\<close> here) pushes one suggestion for every pattern that is more than
  0.3 relevant, in iteration order; then come the stable sort by descending
  \<^verbatim>\<open>similarity || 0\<close> and the first five.\<close>

definition similarityOr0 :: "SuggestedSnippet \<Rightarrow> real" where
  "similarityOr0 s = (case similarity s of Some x \<Rightarrow> x | None \<Rightarrow> 0)"

definition makeSuggestion :: "LearnedPattern \<Rightarrow> real \<Rightarrow> SuggestedSnippet" where
  "makeSuggestion p relevance =
     \<lparr> title = Some (generateSuggestionTitle p),
       description = Some (''Padr'' @ [CHR 0xE3] @ ''o aprendido (''
                           @ showNat (nat (mathRound (fmul relevance 100)))
                           @ ''% relevante, usado '' @ showNat (frequencia p) @ ''x)''),
       language = Some (tipoArquivo p),
       code = codigo p,
       pattern = None,
       similarity = Some relevance \<rparr>"

definition candidateSuggestions :: "store \<Rightarrow> string list \<Rightarrow> string \<Rightarrow> SuggestedSnippet list" where
  "candidateSuggestions st typingContext lang =
     concat (map (\<lambda>e. let relevance = calculateRelevance (snd e) typingContext lang
                      in if relevance > round64 0.3 then [makeSuggestion (snd e) relevance]
                         else [])
                 st)"

definition getSuggestionsForContext ::
    "store \<Rightarrow> TextDocument \<Rightarrow> int \<Rightarrow> string \<Rightarrow> SuggestedSnippet list" where
  "getSuggestionsForContext st document positionLine currentLine =
     (let ctx = extractContext document positionLine;
          typingContext = analyzeTypingContext currentLine ctx;
          suggestions = candidateSuggestions st typingContext (languageId document);
          sorted' = sort_key (\<lambda>s. - similarityOr0 s) suggestions
      in take 5 sorted')"

section \<open>The edit-pattern classifier\<close>

text \<open>\<^verbatim>\<open>line.match(/^(const|let|var)\s+\w+/)\<close>.\<close>

definition matchesDeclaration :: "string \<Rightarrow> bool" where
  "matchesDeclaration line =
     list_ex (\<lambda>kw. matchHere line kw \<noteq> None) [''const'', ''let'', ''var'']"

text \<open>\<^verbatim>\<open>identifyCurrentPattern\<close>: the first rule that matches wins; \<^const>\<open>None\<close> is
  \<^verbatim>\<open>null\<close>.\<close>

definition identifyCurrentPattern :: "string \<Rightarrow> string \<Rightarrow> string option" where
  "identifyCurrentPattern currentLine contextCode =
     (let line = trim currentLine in
      if startsWith line ''function '' then Some ''function_declaration''
      else if startsWith line ''class '' then Some ''class_declaration''
      else if matchesDeclaration line then Some ''variable_declaration''
      else if includesStr line ''if ('' \<or> includesStr line ''if('' then Some ''conditional_statement''
      else if includesStr line ''for ('' \<or> includesStr line ''for('' then Some ''loop_statement''
      else if includesStr line ''.'' \<and> \<not> includesStr line ''//'' then Some ''method_call''
      else if includesStr line ''{'' \<and> \<not> includesStr line ''}'' then Some ''block_opening''
      else if includesStr contextCode ''function'' \<and> includesStr line ''return''
           then Some ''return_statement''
      else None)"

section \<open>The similarity engine of the pattern analyzer\<close>

text \<open>A syntax node as the pattern analyzer reads it. The parser and the serialisation
  of a node by \<^verbatim>\<open>JSON.stringify\<close> are outside the analyzer, so a node carries
  \<^item> for a function declaration: the name of its identifier (if any), the \<^verbatim>\<open>type\<close> tags
    of its parameters, and the serialised body (if any);
  \<^item> for a class declaration: the name of its identifier, whether \<^verbatim>\<open>superClass\<close> is
    \<^verbatim>\<open>null\<close>, and the serialised body;
  \<^item> for a variable declaration: its kind, its declarators, and the serialised node;
  \<^item> for any other node: its \<^verbatim>\<open>type\<close> tag and the serialised node.\<close>

record VariableDeclarator =
  decl_id_type :: string
  decl_id_name :: string
  decl_init :: "string option"

datatype node =
    FunctionDeclaration (fn_name: "string option") (fn_params: "string list")
      (fn_body: "string option")
  | ClassDeclaration (cl_name: "string option") (cl_superClass_null: bool)
      (cl_body: "string option")
  | VariableDeclaration (var_kind: string) (var_declarations: "VariableDeclarator list")
      (var_json: string)
  | OtherNode (other_type: string) (other_json: string)

fun node_type :: "node \<Rightarrow> string" where
  "node_type (FunctionDeclaration n ps b) = ''FunctionDeclaration''"
| "node_type (ClassDeclaration n s b) = ''ClassDeclaration''"
| "node_type (VariableDeclaration k ds j) = ''VariableDeclaration''"
| "node_type (OtherNode t j) = t"

text \<open>\<^verbatim>\<open>levenshteinDistance\<close>. The matrix is built row by row: \<^verbatim>\<open>levRow\<close> fills
  \<^verbatim>\<open>matrix[j][1..]\<close> from the row above (\<^verbatim>\<open>diag\<close> is \<^verbatim>\<open>matrix[j-1][i-1]\<close>, \<^verbatim>\<open>up\<close> is
  \<^verbatim>\<open>matrix[j-1][i]\<close>) and from the cell to the left.\<close>

fun levRow :: "char \<Rightarrow> string \<Rightarrow> nat list \<Rightarrow> nat \<Rightarrow> nat list" where
  "levRow c2 (c1 # s1) (diag # up # prev) left =
     (let indicator = (if c1 = c2 then 0 else 1);
          v = min (min (left + 1) (up + 1)) (diag + indicator)
      in v # levRow c2 s1 (up # prev) v)"
| "levRow c2 s1 prev left = []"

definition levMatrixRows :: "string \<Rightarrow> string \<Rightarrow> nat list" where
  "levMatrixRows s1 s2 =
     foldl (\<lambda>prev jc. fst jc # levRow (snd jc) s1 prev (fst jc))
       [0 ..< Suc (length s1)]
       (zip [1 ..< Suc (length s2)] s2)"

definition levenshteinDistance :: "string \<Rightarrow> string \<Rightarrow> nat" where
  "levenshteinDistance s1 s2 =
     (if length s1 = 0 then length s2
      else if length s2 = 0 then length s1
      else last (levMatrixRows s1 s2))"

text \<open>A quotient of the source whose divisor can be zero. Wherever the divisor is zero
  the dividend is zero too, so the quotient is \<^verbatim>\<open>NaN\<close>, written \<^const>\<open>None\<close>; every sum
  it enters and the final clamp \<^verbatim>\<open>Math.max(0, Math.min(1, score))\<close> are \<^verbatim>\<open>NaN\<close> then.\<close>

definition jsDivide :: "real \<Rightarrow> real \<Rightarrow> real option" where
  "jsDivide a b = (if b = 0 then None else Some (a / b))"

definition clamp01 :: "real \<Rightarrow> real" where
  "clamp01 score = max 0 (min 1 score)"

definition distanceTerm :: "string \<Rightarrow> string \<Rightarrow> real option" where
  "distanceTerm str1 str2 =
     (let distance = levenshteinDistance str1 str2;
          maxLength = max (length str1) (length str2)
      in map_option (\<lambda>r. 1 - r) (jsDivide (real distance) (real maxLength)))"

definition methodMatchScore :: "string \<Rightarrow> string \<Rightarrow> real" where
  "methodMatchScore body1 body2 =
     0.05 * real (length (filter (\<lambda>pat. includesStr body1 pat \<and> includesStr body2 pat)
        [''test'', ''validate'', ''check'', ''get'', ''set'', ''create'', ''update'', ''delete'']))"

definition structureMatchScore :: "string \<Rightarrow> string \<Rightarrow> real" where
  "structureMatchScore body1 body2 =
     0.05 * real (length (filter
        (\<lambda>pat. countMatches [pat] body1 = countMatches [pat] body2 \<and> countMatches [pat] body1 > 0)
        [''if'', ''for'', ''while'', ''switch'', ''try'']))"

definition countScore :: "nat \<Rightarrow> nat \<Rightarrow> real" where
  "countScore count1 count2 =
     (if count1 = count2 then 0.2
      else 0.1 * (1 - \<bar>real count1 - real count2\<bar> / real (max count1 count2)))"

text \<open>\<^verbatim>\<open>calculateSimilarity\<close>: 0 for nodes of different types, otherwise the score of
  the branch of the type, clamped to the unit interval.\<close>

fun calculateSimilarity :: "node \<Rightarrow> node \<Rightarrow> real option" where
  "calculateSimilarity (FunctionDeclaration n1 params1 b1) (FunctionDeclaration n2 params2 b2) =
     do {
       paramScore \<leftarrow>
         (if length params1 = length params2
          then do {
            ratio \<leftarrow> jsDivide (real (length (filter (\<lambda>pq. fst pq = snd pq) (zip params1 params2))))
                       (real (length params1));
            Some (0.1 + 0.1 * ratio) }
          else Some 0);
       bodyScore \<leftarrow>
         (case (b1, b2) of
            (Some body1, Some body2) \<Rightarrow>
              do {
                d \<leftarrow> distanceTerm body1 body2;
                Some (min 0.2 (methodMatchScore body1 body2)
                      + min 0.2 (structureMatchScore body1 body2) + 0.1 * d) }
          | _ \<Rightarrow> Some 0);
       Some (clamp01 (0.3 + paramScore + bodyScore))
     }"
| "calculateSimilarity (ClassDeclaration n1 superNull1 b1) (ClassDeclaration n2 superNull2 b2) =
     do {
       bodyScore \<leftarrow>
         (case (b1, b2) of
            (Some body1, Some body2) \<Rightarrow>
              do {
                d \<leftarrow> distanceTerm body1 body2;
                Some (countScore (countMatches [''\"type\":\"MethodDefinition\"''] body1)
                                 (countMatches [''\"type\":\"MethodDefinition\"''] body2)
                      + (if includesStr body1 ''\"key\":{\"type\":\"Identifier\",\"name\":\"constructor\"''
                            = includesStr body2 ''\"key\":{\"type\":\"Identifier\",\"name\":\"constructor\"''
                         then 0.1 else 0)
                      + countScore (countMatches [''\"type\":\"PropertyDefinition\"''] body1)
                                   (countMatches [''\"type\":\"PropertyDefinition\"''] body2)
                      + (if (\<not> superNull1) = (\<not> superNull2) then 0.1 else 0)
                      + 0.1 * d) }
          | _ \<Rightarrow> Some 0);
       Some (clamp01 (0.3 + bodyScore))
     }"
| "calculateSimilarity (VariableDeclaration kind1 decls1 json1) (VariableDeclaration kind2 decls2 json2) =
     do {
       d \<leftarrow> distanceTerm json1 json2;
       Some (clamp01
         (0.3 + (if length decls1 = length decls2 then 0.2 else 0)
              + (if kind1 = kind2 then 0.1 else 0)
              + (case (decls1, decls2) of
                   (decl1 # _, decl2 # _) \<Rightarrow>
                     (if (decl_init decl1 \<noteq> None) = (decl_init decl2 \<noteq> None) then 0.1 else 0)
                     + (if decl_init decl1 \<noteq> None \<and> decl_init decl2 \<noteq> None
                           \<and> decl_init decl1 = decl_init decl2 then 0.2 else 0)
                 | _ \<Rightarrow> 0)
              + 0.1 * d))
     }"
| "calculateSimilarity (OtherNode t1 json1) (OtherNode t2 json2) =
     (if t1 \<noteq> t2 then Some 0
      else do { d \<leftarrow> distanceTerm json1 json2; Some (clamp01 d) })"
| "calculateSimilarity node1 node2 = Some 0"

text \<open>The patterns of the analyzer, by node type, and its \<^verbatim>\<open>findSimilarPattern\<close> (named
  apart from the one of the learning system). A comparison with \<^verbatim>\<open>NaN\<close> is false.\<close>

record PatternMatch =
  pm_node :: node
  pm_score :: real
  pm_type :: string

definition findSimilarPatternNode :: "(string \<times> node list) list \<Rightarrow> node \<Rightarrow> PatternMatch option" where
  "findSimilarPatternNode patterns nd =
     (let type = node_type nd;
          pats = (case map_of patterns type of Some ps \<Rightarrow> ps | None \<Rightarrow> [])
      in if length pats = 0 then None
         else (let bestMatch =
                 foldl (\<lambda>best pat.
                          case calculateSimilarity nd pat of
                            Some score \<Rightarrow>
                              (if score > pm_score best
                               then \<lparr> pm_node = pat, pm_score = score, pm_type = type \<rparr>
                               else best)
                          | None \<Rightarrow> best)
                   \<lparr> pm_node = hd pats, pm_score = 0.6, pm_type = type \<rparr> pats
               in if pm_score bestMatch > 0.5 then Some bestMatch else None))"

text \<open>\<^verbatim>\<open>generateTitle\<close>, \<^verbatim>\<open>getStructuralDescription\<close>, \<^verbatim>\<open>generateDescription\<close>.\<close>

definition generateTitle :: "node \<Rightarrow> string" where
  "generateTitle nd =
     (case nd of
        FunctionDeclaration n ps b \<Rightarrow>
          ''Function: '' @ (case n of Some name \<Rightarrow> (if name = [] then ''anonymous'' else name)
                                    | None \<Rightarrow> ''anonymous'')
      | ClassDeclaration n s b \<Rightarrow>
          ''Class: '' @ (case n of Some name \<Rightarrow> (if name = [] then ''anonymous'' else name)
                                 | None \<Rightarrow> ''anonymous'')
      | VariableDeclaration k ds j \<Rightarrow>
          ''Variable: '' @ (case ds of
                              decl # _ \<Rightarrow> (if decl_id_type decl = ''Identifier''
                                            then decl_id_name decl else ''unnamed'')
                            | [] \<Rightarrow> ''unnamed'')
      | OtherNode t j \<Rightarrow> ''Code Snippet'')"

definition getStructuralDescription :: "node \<Rightarrow> string" where
  "getStructuralDescription nd =
     (case nd of
        FunctionDeclaration n ps b \<Rightarrow>
          ''Fun'' @ [CHR 0xE7, CHR 0xE3] @ ''o com '' @ showNat (length ps)
            @ '' par'' @ [CHR 0xE2] @ ''metro(s)''
      | ClassDeclaration n s b \<Rightarrow> ''Declara'' @ [CHR 0xE7, CHR 0xE3] @ ''o de classe''
      | VariableDeclaration k ds j \<Rightarrow>
          ''Declara'' @ [CHR 0xE7, CHR 0xE3] @ ''o de vari'' @ [CHR 0xE1] @ ''vel com ''
            @ showNat (length ds) @ '' vari'' @ [CHR 0xE1] @ ''vel(eis)''
      | OtherNode t j \<Rightarrow> ''Trecho de c'' @ [CHR 0xF3] @ ''digo'')"

definition generateDescription :: "node \<Rightarrow> PatternMatch option \<Rightarrow> string" where
  "generateDescription nd match =
     (case match of
        None \<Rightarrow> ''Auto-generated snippet''
      | Some m \<Rightarrow>
          getStructuralDescription nd @ ''. This pattern is ''
            @ (if pm_score m > 0.8 then ''very similar'' else ''similar'')
            @ '' to other code in your project.'')"

text \<open>\<^verbatim>\<open>createBasicSnippet\<close>: the fallback snippet.\<close>

definition createBasicSnippet :: "string \<Rightarrow> SuggestedSnippet" where
  "createBasicSnippet src =
     (let lines = splitOn CHR 0x0A src;
          title' = take 60 (trim (hd lines))
      in \<lparr> title = Some (if title' = [] then ''snippet'' else title'),
           description = Some ''Auto-generated snippet'',
           language = Some ''javascript'',
           code = src,
           pattern = None,
           similarity = None \<rparr>)"

text \<open>\<^verbatim>\<open>suggestSnippetFromCode\<close>. The parser is a parameter: on a source text it either
  throws or returns the statements of the program. \<^verbatim>\<open>snippetTryBlock\<close> is the body of the
  \<^verbatim>\<open>try\<close>, whose exception is a value; the function itself is the \<^verbatim>\<open>try\<close> with its
  \<^verbatim>\<open>catch\<close>, and its result says whether it returns a snippet or raises.\<close>

datatype exn = ParseError

type_synonym parser = "string \<Rightarrow> exn + node list"

definition snippetTryBlock ::
    "parser \<Rightarrow> (string \<times> node list) list \<Rightarrow> string \<Rightarrow> exn + SuggestedSnippet" where
  "snippetTryBlock parseScript patterns src =
     (case parseScript src of
        Inl e \<Rightarrow> Inl e
      | Inr body \<Rightarrow>
          (case body of
             [] \<Rightarrow> Inr (createBasicSnippet src)
           | mainNode # _ \<Rightarrow>
               (let match = findSimilarPatternNode patterns mainNode
                in Inr \<lparr> title = Some (generateTitle mainNode),
                         description = Some (generateDescription mainNode match),
                         language = Some ''javascript'',
                         code = src,
                         pattern = (case match of Some m \<Rightarrow> Some (pm_type m) | None \<Rightarrow> None),
                         similarity = Some (case match of Some m \<Rightarrow> pm_score m | None \<Rightarrow> 0) \<rparr>)))"

definition suggestSnippetFromCode ::
    "parser \<Rightarrow> (string \<times> node list) list \<Rightarrow> string \<Rightarrow> exn + SuggestedSnippet" where
  "suggestSnippetFromCode parseScript patterns src =
     (case snippetTryBlock parseScript patterns src of
        Inl err \<Rightarrow> Inr (createBasicSnippet src)
      | Inr snippet \<Rightarrow> Inr snippet)"

section \<open>The fragment extractor\<close>

text \<open>A syntax node as the extractor reads it: its \<^verbatim>\<open>type\<close> tag, the start and end line
  of \<^verbatim>\<open>loc\<close> (if present), the name of its identifier (if present), and the child nodes
  that the loop over its keys visits, in that order.\<close>

datatype ast =
  Ast (ast_type: string) (ast_loc: "(int \<times> int) option") (ast_name: "string option")
    (ast_children: "ast list")

definition hasName :: "ast \<Rightarrow> bool" where
  "hasName nd = (case ast_name nd of Some name \<Rightarrow> name \<noteq> [] | None \<Rightarrow> False)"

definition isInterestingVariable :: "string \<Rightarrow> bool" where
  "isInterestingVariable c =
     (includesStr c ''{'' \<or> includesStr c ''['' \<or> includesStr c ''=>''
      \<or> includesStr c ''function'')"

text \<open>The fragment of a named declaration, from the start and end line of its node.\<close>

definition declarationFragment ::
    "TextDocument \<Rightarrow> fragment_type \<Rightarrow> int \<times> int \<Rightarrow> CodeFragment" where
  "declarationFragment document ty l =
     (let inicio = fst l - 1;
          fim = snd l - 1;
          conteudo = getText document inicio fim
      in \<lparr> content = conteudo, ftype = ty, fcontext = extractContext document inicio,
           lineCount = fim - inicio + 1, complexity = calculateComplexity conteudo \<rparr>)"

text \<open>What the visitors of \<^verbatim>\<open>extractFunctions\<close> and \<^verbatim>\<open>extractClasses\<close> push for the node
  they stand on, for the \<^verbatim>\<open>type\<close> tag they look for.\<close>

definition namedDeclarationFragments ::
    "TextDocument \<Rightarrow> string \<Rightarrow> fragment_type \<Rightarrow> ast \<Rightarrow> CodeFragment list" where
  "namedDeclarationFragments document tag ty nd =
     (if ast_type nd = tag
      then (case ast_loc nd of
              Some lines \<Rightarrow> (if hasName nd then [declarationFragment document ty lines] else [])
            | None \<Rightarrow> [])
      else [])"

fun extractFunctions :: "TextDocument \<Rightarrow> ast \<Rightarrow> CodeFragment list" where
  "extractFunctions document (Ast ty l name children) =
     namedDeclarationFragments document ''FunctionDeclaration'' funcao (Ast ty l name children)
     @ concat (map (extractFunctions document) children)"

fun extractClasses :: "TextDocument \<Rightarrow> ast \<Rightarrow> CodeFragment list" where
  "extractClasses document (Ast ty l name children) =
     namedDeclarationFragments document ''ClassDeclaration'' classe (Ast ty l name children)
     @ concat (map (extractClasses document) children)"

text \<open>The same for \<^verbatim>\<open>extractVariables\<close> and \<^verbatim>\<open>extractImports\<close>.\<close>

definition variableFragments :: "TextDocument \<Rightarrow> ast \<Rightarrow> CodeFragment list" where
  "variableFragments document nd =
     (if ast_type nd = ''VariableDeclaration''
      then (case ast_loc nd of
              Some lines \<Rightarrow>
                (let start = fst lines - 1;
                     end' = snd lines - 1;
                     c = trim (getText document start end')
                 in if isInterestingVariable c
                    then [\<lparr> content = c, ftype = variavel,
                            fcontext = extractContext document start,
                            lineCount = end' - start + 1,
                            complexity = calculateComplexity c \<rparr>]
                    else [])
            | None \<Rightarrow> [])
      else [])"

fun extractVariables :: "TextDocument \<Rightarrow> ast \<Rightarrow> CodeFragment list" where
  "extractVariables document (Ast ty l name children) =
     variableFragments document (Ast ty l name children)
     @ concat (map (extractVariables document) children)"

definition importFragments :: "TextDocument \<Rightarrow> ast \<Rightarrow> CodeFragment list" where
  "importFragments document nd =
     (if ast_type nd = ''ImportDeclaration''
      then (case ast_loc nd of
              Some lines \<Rightarrow>
                (let start = fst lines - 1;
                     end' = snd lines - 1;
                     c = trim (getText document start end')
                 in [\<lparr> content = c, ftype = importacao, fcontext = ''file-start'',
                       lineCount = 1, complexity = 1 \<rparr>])
            | None \<Rightarrow> [])
      else [])"

fun extractImports :: "TextDocument \<Rightarrow> ast \<Rightarrow> CodeFragment list" where
  "extractImports document (Ast ty l name children) =
     importFragments document (Ast ty l name children)
     @ concat (map (extractImports document) children)"

definition blockTypes :: "(fragment_type \<times> (string \<Rightarrow> bool)) list" where
  "blockTypes =
     [(loop, \<lambda>t. t \<in> set [''ForStatement'', ''WhileStatement'', ''DoWhileStatement'',
                            ''ForInStatement'', ''ForOfStatement'']),
      (condicao, \<lambda>t. t = ''IfStatement''),
      (bloco, \<lambda>t. t = ''TryStatement'')]"

definition blockFragment ::
    "TextDocument \<Rightarrow> fragment_type \<Rightarrow> int \<times> int \<Rightarrow> CodeFragment list" where
  "blockFragment document ty lines =
     (let start = fst lines - 1;
          end' = min (docLineCount document - 1) (snd lines - 1)
      in if end' > start \<and> end' - start + 1 \<le> 40
         then (let c = getText document start end'
               in if length c \<ge> MIN_PATTERN_LENGTH
                  then [\<lparr> content = c, ftype = ty,
                          fcontext = extractContext document start,
                          lineCount = end' - start + 1,
                          complexity = calculateComplexity c \<rparr>]
                  else [])
         else [])"

definition blockFragments :: "TextDocument \<Rightarrow> ast \<Rightarrow> CodeFragment list" where
  "blockFragments document nd =
     concat (map (\<lambda>bt.
        if snd bt (ast_type nd)
        then (case ast_loc nd of
                Some lines \<Rightarrow> blockFragment document (fst bt) lines
              | None \<Rightarrow> [])
        else []) blockTypes)"

fun extractBlocks :: "TextDocument \<Rightarrow> ast \<Rightarrow> CodeFragment list" where
  "extractBlocks document (Ast ty l name children) =
     blockFragments document (Ast ty l name children)
     @ concat (map (extractBlocks document) children)"

text \<open>\<^verbatim>\<open>extractCodeFragments\<close>, on the outcome of \<^verbatim>\<open>analyzeDocument\<close>: \<^const>\<open>None\<close> is the
  \<^verbatim>\<open>null\<close> of a parse failure or of an unsupported language.\<close>

definition extractCodeFragments :: "TextDocument \<Rightarrow> ast option \<Rightarrow> CodeFragment list" where
  "extractCodeFragments document tree =
     (case tree of
        None \<Rightarrow> []
      | Some program \<Rightarrow>
          extractFunctions document program @ extractClasses document program
          @ extractVariables document program @ extractImports document program
          @ extractBlocks document program)"

text \<open>The invariant of the rows of the matrix that the bound on the distance rests on:
  a row has one cell per prefix of the first string, and the cell of column \<open>i\<close> in row
  \<open>j\<close> is at most the larger of \<open>i\<close> and \<open>j\<close>.\<close>

definition rowOK :: "nat \<Rightarrow> nat \<Rightarrow> nat list \<Rightarrow> bool" where
  "rowOK n j row = (length row = Suc n \<and> (\<forall>i\<le>n. row ! i \<le> max i j))"

section \<open>Concrete inputs\<close>

text \<open>The fragment of the first end-to-end scenario: the text of the function as its
  content, of type \<^verbatim>\<open>funcao\<close>, with the complexity that \<^const>\<open>calculateComplexity\<close>
  computes for that text; and the pattern that the first learn call stores for it at clock
  reading 10 in a JavaScript document.\<close>

definition validateEmailContent :: string where
  "validateEmailContent =
     ''function validateEmail(email) { const regex = /.../; return regex.test(email); }''"

definition validateEmailFragment :: CodeFragment where
  "validateEmailFragment =
     \<lparr> content = validateEmailContent, ftype = funcao, fcontext = validateEmailContent,
       lineCount = 1, complexity = calculateComplexity validateEmailContent \<rparr>"

definition validateEmailPattern :: LearnedPattern where
  "validateEmailPattern =
     \<lparr> pid = generatePatternId validateEmailContent, codigo = validateEmailContent,
       contexto = validateEmailContent, frequencia = 1, ultimoUso = 10,
       gatilhos = extractTriggers validateEmailContent validateEmailContent,
       tipoArquivo = ''javascript'', confianca = 1, variacoes = [] \<rparr>"

text \<open>A variable declaration with an object initialiser that spans four lines, as the
  extractor reads it (the text of a range that ends at the start of the closing line,
  trimmed), and the pattern stored for it.\<close>

definition configContent :: string where
  "configContent =
     ''const config = {'' @ [CHR 0x0A] @ ''  retries: 3,'' @ [CHR 0x0A] @ ''  verbose: true''"

definition configFragment :: CodeFragment where
  "configFragment =
     \<lparr> content = configContent, ftype = variavel, fcontext = configContent,
       lineCount = 4, complexity = calculateComplexity configContent \<rparr>"

definition configPattern :: LearnedPattern where
  "configPattern =
     \<lparr> pid = generatePatternId configContent, codigo = configContent,
       contexto = configContent, frequencia = 1, ultimoUso = 10,
       gatilhos = extractTriggers configContent configContent,
       tipoArquivo = ''javascript'', confianca = round64 0.65, variacoes = [] \<rparr>"

text \<open>A function of four lines as the extractor reads it, the pattern stored for it
  (with the confidence that \<^const>\<open>calculatePatternConfidence\<close> gives it), and the fragment
  of the same function after a comment line has been added to its body.\<close>

definition sumContent :: string where
  "sumContent =
     ''function sum(a, b) {'' @ [CHR 0x0A] @ ''  const r = a + b;'' @ [CHR 0x0A]
     @ ''  return r;'' @ [CHR 0x0A]"

definition sumPattern :: LearnedPattern where
  "sumPattern =
     \<lparr> pid = generatePatternId sumContent, codigo = sumContent,
       contexto = sumContent, frequencia = 1, ultimoUso = 10,
       gatilhos = extractTriggers sumContent sumContent,
       tipoArquivo = ''javascript'', confianca = round64 0.95, variacoes = [] \<rparr>"

definition sumCommentContent :: string where
  "sumCommentContent =
     ''function sum(a, b) {'' @ [CHR 0x0A] @ ''  const r = a + b;'' @ [CHR 0x0A]
     @ ''  // sum'' @ [CHR 0x0A] @ ''  return r;'' @ [CHR 0x0A]"

definition sumCommentFragment :: CodeFragment where
  "sumCommentFragment =
     \<lparr> content = sumCommentContent, ftype = funcao, fcontext = sumCommentContent,
       lineCount = 5, complexity = calculateComplexity sumCommentContent \<rparr>"

text \<open>The head of a function on a line of its own, as the extractor reads a declaration
  of two lines: a function of complexity 2 without braces.\<close>

definition fooFragment :: CodeFragment where
  "fooFragment =
     \<lparr> content = ''function foo(a, b)'' @ [CHR 0x0A], ftype = funcao,
       fcontext = ''function foo(a, b)'' @ [CHR 0x0A], lineCount = 2,
       complexity = calculateComplexity (''function foo(a, b)'' @ [CHR 0x0A]) \<rparr>"

text \<open>A map of six patterns for a capacity of five; the entries \<^verbatim>\<open>b\<close> and \<^verbatim>\<open>e\<close> tie.\<close>

definition demoPattern :: "string \<Rightarrow> nat \<Rightarrow> real \<Rightarrow> LearnedPattern" where
  "demoPattern k f c =
     \<lparr> pid = k, codigo = k, contexto = [], frequencia = f, ultimoUso = 0, gatilhos = [k],
       tipoArquivo = ''javascript'', confianca = c, variacoes = [] \<rparr>"

definition demoStore :: store where
  "demoStore =
     [(''a'', demoPattern ''a'' 2 (1 / 4)), (''b'', demoPattern ''b'' 2 (1 / 2)),
      (''c'', demoPattern ''c'' 4 1), (''d'', demoPattern ''d'' 3 (3 / 4)),
      (''e'', demoPattern ''e'' 2 (1 / 2)), (''f'', demoPattern ''f'' 3 1)]"

text \<open>Three patterns for a capacity of two. The confidence of \<^verbatim>\<open>a\<close> is that of a function
  of complexity 2 with unbalanced braces (\<^verbatim>\<open>0.5 + 0.2 + 0.2\<close>, the binary64 value just
  below that of the literal 0.9), the confidence of \<^verbatim>\<open>b\<close> is that of a structured variable
  of complexity 3 or more (\<^verbatim>\<open>0.5 + 0.3 + 0.1\<close>, the value of the literal 0.9); both have
  been seen ten times.\<close>

definition tieStore :: store where
  "tieStore =
     [(''a'', demoPattern ''a'' 10 (fadd (fadd 0.5 (round64 0.2)) (round64 0.2))),
      (''b'', demoPattern ''b'' 10 (fadd (fadd 0.5 (round64 0.3)) (round64 0.1))),
      (''c'', demoPattern ''c'' 2 (1 / 2))]"

text \<open>A pattern learned from a TypeScript document, with the confidence of a variable of
  complexity 2 with unbalanced braces (\<^verbatim>\<open>0.5 + 0.2\<close>), seen three times, with ten triggers
  of which the first is a token of the typing context below.\<close>

definition thresholdPattern :: LearnedPattern where
  "thresholdPattern =
     \<lparr> pid = ''p'', codigo = ''const cfg = {'', contexto = [], frequencia = 3, ultimoUso = 0,
       gatilhos = [''cfg'', ''t1'', ''t2'', ''t3'', ''t4'', ''t5'', ''t6'', ''t7'', ''t8'', ''t9''],
       tipoArquivo = ''typescript'', confianca = fadd 0.5 (round64 0.2), variacoes = [] \<rparr>"

text \<open>The two functions of the second end-to-end scenario,
  \<^verbatim>\<open>function validateEmail(email) { const regex = /^[a-zA-Z0-9_.+-]+@[a-zA-Z0-9-]+\.[a-zA-Z0-9-.]+$/; return regex.test(email); }\<close>
  and
  \<^verbatim>\<open>function validatePhone(phone) { const regex = /^\d{10,11}$/; return regex.test(phone); }\<close>,
  as syntax nodes: one \<^verbatim>\<open>Identifier\<close> parameter each, and the serialised block statement
  of the body (a backslash of the source is two backslashes in the serialisation, code
  unit 5C).\<close>

definition validateEmailBody :: string where
  \<open>validateEmailBody =
     ''{"type":"BlockStatement","body":[{"type":"VariableDeclaration","declarations":[{"type":"VariableDeclarator","id":{"type":"Identifier","name":"regex"},"init":{"type":"Literal","value":{},"raw":"/^[a-zA-Z0-9_.+-]+@[a-zA-Z0-9-]+''
     @ [CHR 0x5C, CHR 0x5C] @ ''.[a-zA-Z0-9-.]+$/","regex":{"pattern":"^[a-zA-Z0-9_.+-]+@[a-zA-Z0-9-]+''
     @ [CHR 0x5C, CHR 0x5C] @ ''.[a-zA-Z0-9-.]+$","flags":""}}}],"kind":"const"},{"type":"ReturnStatement","argument":{"type":"CallExpression","callee":{"type":"MemberExpression","computed":false,"object":{"type":"Identifier","name":"regex"},"property":{"type":"Identifier","name":"test"}},"arguments":[{"type":"Identifier","name":"email"}]}}]}''\<close>

definition validatePhoneBody :: string where
  \<open>validatePhoneBody =
     ''{"type":"BlockStatement","body":[{"type":"VariableDeclaration","declarations":[{"type":"VariableDeclarator","id":{"type":"Identifier","name":"regex"},"init":{"type":"Literal","value":{},"raw":"/^''
     @ [CHR 0x5C, CHR 0x5C] @ ''d{10,11}$/","regex":{"pattern":"^''
     @ [CHR 0x5C, CHR 0x5C] @ ''d{10,11}$","flags":""}}}],"kind":"const"},{"type":"ReturnStatement","argument":{"type":"CallExpression","callee":{"type":"MemberExpression","computed":false,"object":{"type":"Identifier","name":"regex"},"property":{"type":"Identifier","name":"test"}},"arguments":[{"type":"Identifier","name":"phone"}]}}]}''\<close>

definition validateEmailNode :: node where
  "validateEmailNode =
     FunctionDeclaration (Some ''validateEmail'') [''Identifier''] (Some validateEmailBody)"

definition validatePhoneNode :: node where
  "validatePhoneNode =
     FunctionDeclaration (Some ''validatePhone'') [''Identifier''] (Some validatePhoneBody)"

text \<open>The malformed snippet of the third end-to-end scenario.\<close>

definition malformedSnippet :: string where
  "malformedSnippet = ''function test( { // malformed''"

text \<open>A one-line document whose text around the cursor is the head of a function, for
  the suggestion query; and a six-line document with its syntax tree, for the extractor.
  The text of a range of whole lines is the lines with their line feeds.\<close>

definition demoSuggestDocument :: TextDocument where
  "demoSuggestDocument =
     \<lparr> languageId = ''javascript'', docLineCount = 1,
       getText = (\<lambda>start end'. ''function validatePhone(phone) {'') \<rparr>"

definition demoLines :: "string list" where
  "demoLines = [''function clamp(x) {'', ''  if (x < 0) {'', ''    return 0;'', ''  }'',
     ''  return x;'', ''}'']"

definition demoDocument :: TextDocument where
  "demoDocument =
     \<lparr> languageId = ''javascript'', docLineCount = 6,
       getText = (\<lambda>start end'.
          concat (map (\<lambda>l. l @ [CHR 0x0A])
                    (take (nat (end' - start)) (drop (nat start) demoLines)))) \<rparr>"

definition demoProgram :: ast where
  "demoProgram =
     Ast ''Program'' (Some (1, 6)) None
       [Ast ''FunctionDeclaration'' (Some (1, 6)) (Some ''clamp'')
          [Ast ''Identifier'' (Some (1, 1)) None [],
           Ast ''Identifier'' (Some (1, 1)) None [],
           Ast ''BlockStatement'' (Some (1, 6)) None
             [Ast ''IfStatement'' (Some (2, 4)) None
                [Ast ''BinaryExpression'' (Some (2, 2)) None [],
                 Ast ''BlockStatement'' (Some (2, 4)) None
                   [Ast ''ReturnStatement'' (Some (3, 3)) None []]],
              Ast ''ReturnStatement'' (Some (5, 5)) None []]]]"

section \<open>Properties of the string primitives and of the map\<close>

lemma splitWsAcc_nonempty: "splitWsAcc b cur s \<noteq> []"
  by (induction b cur s rule: splitWsAcc.induct) auto

lemma splitWs_nonempty: "splitWs s \<noteq> []"
  by (simp add: splitWs_def splitWsAcc_nonempty)

lemma set_dedupe: "set (dedupe xs) = set xs"
  by (simp add: dedupe_def)

lemma length_dedupe: "length (dedupe xs) = card (set xs)"
  by (simp add: dedupe_def length_remdups_card_conv)

lemma includesStr_nonempty: "includesStr s t \<Longrightarrow> t \<noteq> [] \<Longrightarrow> s \<noteq> []"
  by (cases s) auto

lemma map_of_mapSet: "map_of (mapSet st k v) = (map_of st)(k \<mapsto> v)"
  by (induction st k v rule: mapSet.induct) auto

lemma mapGet_mapSet: "mapGet (mapSet st k v) k' = (if k' = k then Some v else mapGet st k')"
  by (simp add: mapGet_def map_of_mapSet)

lemma keys_mapSet_present: "map_of st k = Some p \<Longrightarrow> map fst (mapSet st k v) = map fst st"
  by (induction st k v rule: mapSet.induct) (auto split: if_splits)

lemma mapSet_absent: "map_of st k = None \<Longrightarrow> mapSet st k v = st @ [(k, v)]"
  by (induction st k v rule: mapSet.induct) (auto split: if_splits)

lemma foldl_mapSet_append:
  "distinct (map fst xs) \<Longrightarrow> fst ` set acc \<inter> fst ` set xs = {} \<Longrightarrow>
     foldl (\<lambda>m e. mapSet m (fst e) (snd e)) acc xs = acc @ xs"
proof (induction xs arbitrary: acc)
  case Nil
  then show ?case by simp
next
  case (Cons x xs)
  have "map_of acc (fst x) = None"
    using Cons.prems(2) by (auto simp: map_of_eq_None_iff)
  then have step: "mapSet acc (fst x) (snd x) = acc @ [x]"
    by (simp add: mapSet_absent)
  have "fst ` set (acc @ [x]) \<inter> fst ` set xs = {}"
    using Cons.prems by auto
  with Cons.IH [of "acc @ [x]"] Cons.prems(1) step show ?case by simp
qed

section \<open>Properties of the rounding\<close>

text \<open>\<^const>\<open>floorLog2\<close> is the exponent of its argument.\<close>

lemma floorLog2_lower:
  assumes "0 < x"
  shows "2 powi floorLog2 x \<le> x"
proof (cases "1 \<le> x")
  case True
  define n where "n = nat \<lfloor>x\<rfloor>"
  have n: "0 < n" using True by (simp add: n_def)
  from floorlog_bounds [OF n, of 2] have b: "2 ^ (floorlog 2 n - 1) \<le> n" by simp
  have fl: "0 < floorlog 2 n" using n floorlog_eq_zero_iff [of 2 n] by auto
  have k: "floorLog2 x = int (floorlog 2 n - 1)"
    using True fl by (simp add: floorLog2_def n_def)
  have "real n \<le> x" using True by (simp add: n_def)
  moreover have "(2::real) ^ (floorlog 2 n - 1) \<le> real n"
    using b by (metis of_nat_le_iff of_nat_numeral of_nat_power)
  ultimately have "(2::real) ^ (floorlog 2 n - 1) \<le> x" by linarith
  then show ?thesis unfolding k by simp
next
  case False
  define c where "c = \<lceil>1 / x\<rceil>"
  define n where "n = nat (c - 1)"
  define j where "j = floorlog 2 n"
  have x1: "1 < 1 / x" using False assms by simp
  then have c2: "2 \<le> c" unfolding c_def by linarith
  then have n: "0 < n" by (simp add: n_def)
  from floorlog_bounds [OF n, of 2] have b: "n < 2 ^ j" by (simp add: j_def)
  have k: "floorLog2 x = - int j"
    using False by (simp add: floorLog2_def j_def n_def c_def)
  have "int n < 2 ^ j" using b by (metis of_nat_less_iff of_nat_numeral of_nat_power)
  then have "c \<le> 2 ^ j" using c2 by (simp add: n_def)
  then have "real_of_int c \<le> 2 ^ j" by (metis of_int_le_iff of_int_numeral of_int_power)
  moreover have "1 / x \<le> real_of_int c" unfolding c_def by linarith
  ultimately have "1 / x \<le> 2 ^ j" by linarith
  then have "1 \<le> 2 ^ j * x" using assms by (simp add: field_simps)
  then have "1 / 2 ^ j \<le> x" by (simp add: field_simps)
  then show ?thesis by (simp add: k power_int_minus_divide)
qed

lemma floorLog2_upper:
  assumes "0 < x"
  shows "x < 2 powi (floorLog2 x + 1)"
proof (cases "1 \<le> x")
  case True
  define n where "n = nat \<lfloor>x\<rfloor>"
  have n: "0 < n" using True by (simp add: n_def)
  from floorlog_bounds [OF n, of 2] have b: "n < 2 ^ floorlog 2 n" by simp
  have k: "floorLog2 x + 1 = int (floorlog 2 n)"
    using True by (simp add: floorLog2_def n_def)
  have "Suc n \<le> 2 ^ floorlog 2 n" using b by simp
  then have "real (Suc n) \<le> 2 ^ floorlog 2 n"
    by (metis of_nat_le_iff of_nat_numeral of_nat_power)
  moreover have "x < real (Suc n)" using True unfolding n_def by (simp; linarith)
  ultimately have "x < 2 ^ floorlog 2 n" by linarith
  then show ?thesis unfolding k by simp
next
  case False
  define c where "c = \<lceil>1 / x\<rceil>"
  define n where "n = nat (c - 1)"
  define j where "j = floorlog 2 n"
  have x1: "1 < 1 / x" using False assms by simp
  then have c2: "2 \<le> c" unfolding c_def by linarith
  then have n: "0 < n" by (simp add: n_def)
  from floorlog_bounds [OF n, of 2] have b: "2 ^ (j - 1) \<le> n" by (simp add: j_def)
  have j: "0 < j" using n floorlog_eq_zero_iff [of 2 n] by (auto simp: j_def)
  have k: "floorLog2 x + 1 = - int (j - 1)"
    using False j by (simp add: floorLog2_def j_def n_def c_def)
  have "(2::real) ^ (j - 1) \<le> real n"
    using b by (metis of_nat_le_iff of_nat_numeral of_nat_power)
  moreover have "real n = real_of_int c - 1" using c2 by (simp add: n_def)
  moreover have "real_of_int c - 1 < 1 / x" unfolding c_def by linarith
  ultimately have "2 ^ (j - 1) < 1 / x" by linarith
  then have "2 ^ (j - 1) * x < 1" using assms by (simp add: field_simps)
  then have "x < 1 / 2 ^ (j - 1)" by (simp add: field_simps)
  then show ?thesis unfolding k by (simp add: power_int_minus_divide)
qed

text \<open>The rounding to an integer is off by at most one half and never goes below the
  integer part.\<close>

lemma roundHalfEven_error: "\<bar>real_of_int (roundHalfEven y) - y\<bar> \<le> 1 / 2"
  unfolding roundHalfEven_def Let_def by (simp; linarith)

lemma roundHalfEven_ge_floor: "\<lfloor>y\<rfloor> \<le> roundHalfEven y"
  unfolding roundHalfEven_def Let_def by simp

lemma roundHalfEven_nonneg: "0 \<le> y \<Longrightarrow> 0 \<le> roundHalfEven y"
  using roundHalfEven_ge_floor [of y] by (smt (verit) zero_le_floor)

lemma round64_0: "round64 0 = 0"
  by (simp add: round64_def)

lemma round64_nonneg: "0 \<le> x \<Longrightarrow> 0 \<le> round64 x"
  by (simp add: round64_def Let_def roundHalfEven_nonneg)

lemma normal_half: "(2::real) powi (- 1022) \<le> 1 / 2"
  using power_int_increasing [of "- 1022" "- 1" "2::real"] by (simp add: power_int_minus_divide)

text \<open>In the normal range the rounding moves a number by at most the fraction
  \<open>2 ^ -53\<close> of its value.\<close>

lemma round64_error:
  assumes "2 powi (- 1022) \<le> x"
  shows "\<bar>round64 x - x\<bar> \<le> x / 2 ^ 53"
proof -
  have pos: "0 < x" using assms by (smt (verit) zero_less_power_int)
  define k where "k = floorLog2 x"
  define e where "e = k - 52"
  have "x < 2 powi (k + 1)" unfolding k_def by (rule floorLog2_upper [OF pos])
  with assms have "(2::real) powi (- 1022) < 2 powi (k + 1)" by linarith
  then have "- 1022 < k + 1"
    by (metis linorder_not_less power_int_increasing one_le_numeral)
  then have kk: "max k (- 1022) = k" by simp
  have r: "round64 x = of_int (roundHalfEven (x / 2 powi e)) * 2 powi e"
    using pos kk by (simp add: round64_def Let_def k_def e_def)
  have p: "(0::real) < 2 powi e" by simp
  have "\<bar>round64 x - x\<bar> = \<bar>of_int (roundHalfEven (x / 2 powi e)) - x / 2 powi e\<bar> * 2 powi e"
  proof -
    have "round64 x - x = (of_int (roundHalfEven (x / 2 powi e)) - x / 2 powi e) * 2 powi e"
      using p by (simp add: r field_simps)
    then show ?thesis using p by (simp add: abs_mult)
  qed
  also have "\<dots> \<le> 1 / 2 * 2 powi e"
    using roundHalfEven_error [of "x / 2 powi e"] p by (intro mult_right_mono) simp_all
  also have "\<dots> = 2 powi k / 2 ^ 53"
    by (simp add: e_def power_int_diff)
  also have "\<dots> \<le> x / 2 ^ 53"
    using floorLog2_lower [OF pos] by (simp add: k_def divide_right_mono)
  finally show ?thesis .
qed

text \<open>Below \<open>2 ^ 53\<close> the rounding never goes below an integer that the number has
  reached.\<close>

lemma round64_ge_int:
  assumes "real_of_int k \<le> x" "0 < k" "x < 2 ^ 53"
  shows "real_of_int k \<le> round64 x"
proof -
  have pos: "0 < x" and x1: "1 \<le> x" using assms by linarith+
  define l where "l = floorLog2 x"
  have lo: "2 powi l \<le> x" unfolding l_def by (rule floorLog2_lower [OF pos])
  have up: "x < 2 powi (l + 1)" unfolding l_def by (rule floorLog2_upper [OF pos])
  have "(2::real) powi l < 2 powi 53" using lo assms(3) by simp
  then have l53: "l < 53"
    by (metis power_int_le_imp_less_exp one_less_numeral_iff semiring_norm(76) zero_le_numeral)
  have "(2::real) powi 0 < 2 powi (l + 1)" using up x1 by simp
  then have l0: "0 \<le> l"
    using power_int_le_imp_less_exp [of "2::real" 0 "l + 1"]
    by (smt (verit) one_less_numeral_iff semiring_norm(76) power_int_increasing)
  define n where "n = nat (52 - l)"
  have e: "max l (- 1022) - 52 = - int n" using l0 l53 by (simp add: n_def)
  have r: "round64 x = of_int (roundHalfEven (x * 2 ^ n)) / 2 ^ n"
    using pos e by (simp add: round64_def Let_def l_def [symmetric] power_int_minus_divide)
  have "real_of_int (k * 2 ^ n) \<le> x * 2 ^ n" using assms(1) by simp
  then have "k * 2 ^ n \<le> \<lfloor>x * 2 ^ n\<rfloor>" by (simp add: le_floor_iff)
  also have "\<dots> \<le> roundHalfEven (x * 2 ^ n)" by (rule roundHalfEven_ge_floor)
  finally have "real_of_int (k * 2 ^ n) \<le> of_int (roundHalfEven (x * 2 ^ n))" by linarith
  then have "real_of_int k * 2 ^ n \<le> of_int (roundHalfEven (x * 2 ^ n))" by simp
  then show ?thesis unfolding r by (simp add: field_simps)
qed

text \<open>The rounding is monotone.\<close>

lemma roundHalfEven_le_ceiling: "roundHalfEven y \<le> \<lfloor>y\<rfloor> + 1"
  unfolding roundHalfEven_def Let_def by simp

lemma roundHalfEven_of_int: "roundHalfEven (of_int n) = n"
  unfolding roundHalfEven_def Let_def by simp

lemma roundHalfEven_mono:
  assumes "a \<le> b"
  shows "roundHalfEven a \<le> roundHalfEven b"
proof (cases "\<lfloor>a\<rfloor> = \<lfloor>b\<rfloor>")
  case True
  have "a - of_int \<lfloor>a\<rfloor> \<le> b - of_int \<lfloor>b\<rfloor>" using assms True by simp
  then show ?thesis unfolding roundHalfEven_def Let_def True by auto
next
  case False
  have "\<lfloor>a\<rfloor> \<le> \<lfloor>b\<rfloor>" using assms by (rule floor_mono)
  with False have "\<lfloor>a\<rfloor> + 1 \<le> \<lfloor>b\<rfloor>" by simp
  with roundHalfEven_le_ceiling [of a] roundHalfEven_ge_floor [of b] show ?thesis by linarith
qed

lemma floorLog2_mono:
  assumes "0 < x" "x \<le> y"
  shows "floorLog2 x \<le> floorLog2 y"
proof -
  have "2 powi floorLog2 x \<le> x" by (rule floorLog2_lower [OF assms(1)])
  moreover have "y < 2 powi (floorLog2 y + 1)" using assms by (intro floorLog2_upper) simp
  ultimately have "(2::real) powi floorLog2 x < 2 powi (floorLog2 y + 1)"
    using assms(2) by linarith
  then have "floorLog2 x < floorLog2 y + 1"
    by (metis linorder_not_less power_int_increasing one_le_numeral)
  then show ?thesis by simp
qed

lemma round64_pos_mono:
  assumes "0 < x" "x \<le> y"
  shows "round64 x \<le> round64 y"
proof -
  have ypos: "0 < y" using assms by simp
  define kx where "kx = max (floorLog2 x) (- 1022)"
  define ky where "ky = max (floorLog2 y) (- 1022)"
  have rx: "round64 x = of_int (roundHalfEven (x / 2 powi (kx - 52))) * 2 powi (kx - 52)"
    using assms(1) by (simp add: round64_def Let_def kx_def)
  have ry: "round64 y = of_int (roundHalfEven (y / 2 powi (ky - 52))) * 2 powi (ky - 52)"
    using ypos by (simp add: round64_def Let_def ky_def)
  have kxy: "kx \<le> ky" using floorLog2_mono [OF assms] by (simp add: kx_def ky_def)
  show ?thesis
  proof (cases "kx = ky")
    case True
    have "x / 2 powi (ky - 52) \<le> y / 2 powi (ky - 52)"
      using assms(2) by (simp add: divide_right_mono)
    from roundHalfEven_mono [OF this]
    have "real_of_int (roundHalfEven (x / 2 powi (ky - 52)))
            \<le> real_of_int (roundHalfEven (y / 2 powi (ky - 52)))" by simp
    then show ?thesis unfolding rx ry True by (intro mult_right_mono) simp_all
  next
    case False
    with kxy have lt: "kx < ky" by simp
    then have kyy: "ky = floorLog2 y" by (simp add: kx_def ky_def max_def split: if_splits)
    have "x < 2 powi (floorLog2 x + 1)" by (rule floorLog2_upper [OF assms(1)])
    also have "\<dots> \<le> 2 powi (kx + 1)"
      by (intro power_int_increasing) (simp_all add: kx_def)
    finally have xlt: "x < 2 powi (kx + 1)" .
    have "x / 2 powi (kx - 52) \<le> 2 powi (kx + 1) / 2 powi (kx - 52)"
      using xlt by (simp add: divide_right_mono)
    also have "\<dots> = 2 powi 53"
      by (simp add: power_int_diff [symmetric])
    finally have "x / 2 powi (kx - 52) \<le> real_of_int (2 ^ 53)" by simp
    from roundHalfEven_mono [OF this] have "roundHalfEven (x / 2 powi (kx - 52)) \<le> 2 ^ 53"
      unfolding roundHalfEven_of_int .
    then have "real_of_int (roundHalfEven (x / 2 powi (kx - 52))) \<le> 2 powi 53"
      by (metis of_int_le_iff of_int_numeral of_int_power power_int_numeral)
    then have "round64 x \<le> 2 powi 53 * 2 powi (kx - 52)"
      unfolding rx by (intro mult_right_mono) simp_all
    also have "\<dots> = 2 powi (kx + 1)"
      using power_int_add [of "2::real" 53 "kx - 52"] by (simp add: add.commute)
    also have "\<dots> \<le> 2 powi ky" using lt by (intro power_int_increasing) simp_all
    finally have a: "round64 x \<le> 2 powi ky" .
    have "2 powi ky \<le> y" unfolding kyy by (rule floorLog2_lower [OF ypos])
    then have "2 powi ky / 2 powi (ky - 52) \<le> y / 2 powi (ky - 52)"
      by (simp add: divide_right_mono)
    moreover have "2 powi ky / 2 powi (ky - 52) = (2::real) powi 52"
      by (simp add: power_int_diff [symmetric])
    ultimately have "real_of_int (2 ^ 52) \<le> y / 2 powi (ky - 52)" by simp
    from roundHalfEven_mono [OF this] have "2 ^ 52 \<le> roundHalfEven (y / 2 powi (ky - 52))"
      unfolding roundHalfEven_of_int .
    then have "2 powi 52 \<le> real_of_int (roundHalfEven (y / 2 powi (ky - 52)))"
      by (metis of_int_le_iff of_int_numeral of_int_power power_int_numeral)
    then have "2 powi 52 * 2 powi (ky - 52) \<le> round64 y"
      unfolding ry by (intro mult_right_mono) simp_all
    moreover have "2 powi 52 * 2 powi (ky - 52) = (2::real) powi ky"
      using power_int_add [of "2::real" 52 "ky - 52"] by (simp add: add.commute)
    ultimately have "2 powi ky \<le> round64 y" by simp
    with a show ?thesis by linarith
  qed
qed

lemma round64_minus: "round64 (- x) = - round64 x"
  by (simp add: round64_def Let_def)

lemma round64_mono:
  assumes "x \<le> y"
  shows "round64 x \<le> round64 y"
proof -
  consider "0 < x" | "x = 0" | "x < 0" "0 \<le> y" | "y < 0" by linarith
  then show ?thesis
  proof cases
    case 1
    then show ?thesis by (rule round64_pos_mono [OF _ assms])
  next
    case 2
    then show ?thesis using assms by (simp add: round64_0 round64_nonneg)
  next
    case 3
    have "0 \<le> round64 (- x)" using 3 by (intro round64_nonneg) simp
    then have "round64 x \<le> 0" using round64_minus [of x] by simp
    moreover have "0 \<le> round64 y" using 3 by (intro round64_nonneg)
    ultimately show ?thesis by linarith
  next
    case 4
    have "round64 (- y) \<le> round64 (- x)"
      using 4 assms by (intro round64_pos_mono) simp_all
    then show ?thesis by (simp add: round64_minus)
  qed
qed

text \<open>Below 2 the rounding moves a number by at most \<open>2 ^ -53\<close>; so does every
  operation whose exact result is below 2.\<close>

lemma round64_abs_error:
  assumes "0 \<le> x" "x < 2"
  shows "\<bar>round64 x - x\<bar> \<le> 1 / 2 ^ 53"
proof (cases "x = 0")
  case True
  then show ?thesis by (simp add: round64_0)
next
  case False
  with assms have pos: "0 < x" by simp
  define e where "e = max (floorLog2 x) (- 1022) - 52"
  have "2 powi floorLog2 x \<le> x" by (rule floorLog2_lower [OF pos])
  with assms(2) have "(2::real) powi floorLog2 x < 2 powi 1" by simp
  then have "floorLog2 x < 1"
    by (metis linorder_not_less power_int_increasing one_le_numeral)
  then have e52: "e \<le> - 52" by (simp add: e_def)
  have r: "round64 x = of_int (roundHalfEven (x / 2 powi e)) * 2 powi e"
    using pos by (simp add: round64_def Let_def e_def)
  have p: "(0::real) < 2 powi e" by simp
  have "\<bar>round64 x - x\<bar> = \<bar>of_int (roundHalfEven (x / 2 powi e)) - x / 2 powi e\<bar> * 2 powi e"
  proof -
    have "round64 x - x = (of_int (roundHalfEven (x / 2 powi e)) - x / 2 powi e) * 2 powi e"
      using p by (simp add: r field_simps)
    then show ?thesis using p by (simp add: abs_mult)
  qed
  also have "\<dots> \<le> 1 / 2 * 2 powi e"
    using roundHalfEven_error [of "x / 2 powi e"] p by (intro mult_right_mono) simp_all
  also have "\<dots> \<le> 1 / 2 * 2 powi (- 52)"
    using e52 by (intro mult_left_mono power_int_increasing) simp_all
  also have "\<dots> = 1 / 2 ^ 53" by (simp add: power_int_minus_divide)
  finally show ?thesis .
qed

lemma fadd_error: "0 \<le> a + b \<Longrightarrow> a + b < 2 \<Longrightarrow> \<bar>fadd a b - (a + b)\<bar> \<le> 1 / 2 ^ 53"
  unfolding fadd_def by (rule round64_abs_error)

lemma fdiv_error: "0 \<le> a / b \<Longrightarrow> a / b < 2 \<Longrightarrow> \<bar>fdiv a b - a / b\<bar> \<le> 1 / 2 ^ 53"
  unfolding fdiv_def by (rule round64_abs_error)

lemma normal_quarter: "(2::real) powi (- 1022) \<le> 1 / 4"
  using power_int_increasing [of "- 1022" "- 2" "2::real"] by (simp add: power_int_minus_divide)

text \<open>The rules that evaluate a rounding of a numeral.\<close>

lemmas round64_eval = round64_def floorLog2_def roundHalfEven_def Let_def compute_floorlog
  fadd_def fmul_def fdiv_def

text \<open>The binary64 values of the decimal literals of the source (the arguments in lowest
  terms), and sums that the source computes with them: \<^verbatim>\<open>0.1 + 0.2\<close> is not
  \<^verbatim>\<open>0.3\<close>, and \<^verbatim>\<open>0.5 + 0.2 + 0.2 + 0.1\<close> is the value just below 1.\<close>

lemma round64_literals:
  "round64 (1 / 10) = 3602879701896397 / 36028797018963968"
  "round64 (3 / 20) = 5404319552844595 / 36028797018963968"
  "round64 (1 / 5) = 3602879701896397 / 18014398509481984"
  "round64 (3 / 10) = 5404319552844595 / 18014398509481984"
  "round64 (1 / 50) = 5764607523034235 / 288230376151711744"
  "round64 (13 / 20) = 5854679515581645 / 9007199254740992"
  "round64 (7 / 10) = 3152519739159347 / 4503599627370496"
  "round64 (4 / 5) = 3602879701896397 / 4503599627370496"
  "round64 (13 / 15) = 1951559838527215 / 2251799813685248"
  "round64 (9 / 10) = 8106479329266893 / 9007199254740992"
  "round64 (19 / 20) = 4278419646001971 / 4503599627370496"
  by (simp_all add: round64_eval)

lemma round64_1: "round64 1 = 1"
  by (simp add: round64_eval)

lemma binary64_sums:
  "fadd (round64 0.1) (round64 0.2) = round64 0.3 + 1 / 2 ^ 54"
  "fadd (fadd (fadd 0.5 (round64 0.2)) (round64 0.2)) (round64 0.1) = 1 - 1 / 2 ^ 53"
  "fmul 10 (round64 0.9) = 9"
  "fmul 10 (fadd (fadd 0.5 (round64 0.2)) (round64 0.2)) = 9"
  "fadd (fadd 0.5 (round64 0.2)) (round64 0.2) < round64 0.9"
  by (simp_all add: round64_eval)

section \<open>Properties of learning and of the filter\<close>

lemma calculateCodeSimilarity_self: "calculateCodeSimilarity c c = 1"
proof -
  have ne: "card (set (splitWs c)) \<noteq> 0"
    using splitWs_nonempty [of c] by (simp add: card_eq_0_iff)
  have "filter (\<lambda>x. x \<in> set (dedupe (splitWs c))) (dedupe (splitWs c)) = dedupe (splitWs c)"
    by simp
  then show ?thesis
    using ne
    by (simp add: calculateCodeSimilarity_def Let_def length_dedupe set_dedupe fdiv_def round64_1)
qed

lemma learn_existing:
  assumes "mapGet st (generatePatternId (content f)) = Some p"
  shows "learnFromFragment cap st f lang now =
           mapSet st (generatePatternId (content f))
             (p\<lparr> frequencia := frequencia p + 1, ultimoUso := now,
                 variacoes := (if content f \<in> set (variacoes p) then variacoes p
                               else variacoes p @ [content f]) \<rparr>)"
  using assms by (simp add: learnFromFragment_def Let_def)

lemma learn_existing_get:
  assumes "mapGet st (generatePatternId (content f)) = Some p"
  shows "mapGet (learnFromFragment cap st f lang now) (generatePatternId (content f)) =
           Some (p\<lparr> frequencia := frequencia p + 1, ultimoUso := now,
                 variacoes := (if content f \<in> set (variacoes p) then variacoes p
                               else variacoes p @ [content f]) \<rparr>)"
  by (simp add: learn_existing [OF assms] mapGet_mapSet)

lemma learn_existing_keys:
  assumes "mapGet st (generatePatternId (content f)) = Some p"
  shows "map fst (learnFromFragment cap st f lang now) = map fst st"
  using assms by (simp add: learn_existing [OF assms] keys_mapSet_present mapGet_def)

lemma learn_new:
  assumes "mapGet st (generatePatternId (content f)) = None" "length st < cap"
  shows "learnFromFragment cap st f lang now =
     st @ [(generatePatternId (content f),
        \<lparr> pid = generatePatternId (content f), codigo = content f, contexto = fcontext f,
          frequencia = 1, ultimoUso = now,
          gatilhos = extractTriggers (content f) (fcontext f), tipoArquivo = lang,
          confianca = calculatePatternConfidence f, variacoes = [] \<rparr>)]"
  using assms by (simp add: learnFromFragment_def Let_def mapGet_def mapSet_absent)

lemma learn_calls_frequency:
  "mapGet st (generatePatternId c) = Some p \<Longrightarrow> \<forall>x\<in>set calls. content (fst x) = c \<Longrightarrow>
     \<exists>p'. mapGet (foldl (\<lambda>s x. learnFromFragment cap s (fst x) lang (snd x)) st calls)
            (generatePatternId c) = Some p' \<and>
          frequencia p' = frequencia p + length calls \<and>
          map fst (foldl (\<lambda>s x. learnFromFragment cap s (fst x) lang (snd x)) st calls) = map fst st"
proof (induction calls arbitrary: st p)
  case Nil
  then show ?case by simp
next
  case (Cons x calls)
  have cx: "content (fst x) = c" using Cons.prems(2) by simp
  have get: "mapGet st (generatePatternId (content (fst x))) = Some p"
    using Cons.prems(1) cx by simp
  from learn_existing_get [OF get, of cap lang "snd x"] cx
  obtain q where q: "mapGet (learnFromFragment cap st (fst x) lang (snd x)) (generatePatternId c) = Some q"
    and fq: "frequencia q = frequencia p + 1" by simp
  have keys: "map fst (learnFromFragment cap st (fst x) lang (snd x)) = map fst st"
    by (rule learn_existing_keys [OF get])
  have rest: "\<forall>y\<in>set calls. content (fst y) = c" using Cons.prems(2) by simp
  from Cons.IH [OF q rest] fq keys show ?case by auto
qed

lemma findSimilarPattern_cases:
  "(findSimilarPattern st c = None \<and>
      (\<forall>i<length st. \<not> round64 0.8 < calculateCodeSimilarity c (codigo (snd (st ! i)))))
   \<or> (\<exists>i<length st. findSimilarPattern st c = Some (snd (st ! i))
          \<and> round64 0.8 < calculateCodeSimilarity c (codigo (snd (st ! i)))
          \<and> (\<forall>j<i. \<not> round64 0.8 < calculateCodeSimilarity c (codigo (snd (st ! j)))))"
proof (induction st)
  case Nil
  then show ?case by simp
next
  case (Cons e st)
  obtain k p where e: "e = (k, p)" by (cases e)
  show ?case
  proof (cases "round64 0.8 < calculateCodeSimilarity c (codigo p)")
    case True
    then have "findSimilarPattern (e # st) c = Some (snd ((e # st) ! 0))
          \<and> round64 0.8 < calculateCodeSimilarity c (codigo (snd ((e # st) ! 0)))
          \<and> (\<forall>j<0. \<not> round64 0.8 < calculateCodeSimilarity c (codigo (snd ((e # st) ! j))))"
      by (simp add: e)
    then show ?thesis by (intro disjI2 exI [of _ 0]) simp
  next
    case False
    from Cons.IH show ?thesis
    proof
      assume a: "findSimilarPattern st c = None \<and>
        (\<forall>i<length st. \<not> round64 0.8 < calculateCodeSimilarity c (codigo (snd (st ! i))))"
      have "\<forall>i<length (e # st). \<not> round64 0.8 < calculateCodeSimilarity c (codigo (snd ((e # st) ! i)))"
      proof (intro allI impI)
        fix i assume "i < length (e # st)"
        then show "\<not> round64 0.8 < calculateCodeSimilarity c (codigo (snd ((e # st) ! i)))"
          using a False e by (cases i) auto
      qed
      with a False e show ?thesis by simp
    next
      assume "\<exists>i<length st. findSimilarPattern st c = Some (snd (st ! i))
          \<and> round64 0.8 < calculateCodeSimilarity c (codigo (snd (st ! i)))
          \<and> (\<forall>j<i. \<not> round64 0.8 < calculateCodeSimilarity c (codigo (snd (st ! j))))"
      then obtain i where i: "i < length st" "findSimilarPattern st c = Some (snd (st ! i))"
          "round64 0.8 < calculateCodeSimilarity c (codigo (snd (st ! i)))"
          "\<forall>j<i. \<not> round64 0.8 < calculateCodeSimilarity c (codigo (snd (st ! j)))" by blast
      have "\<forall>j<Suc i. \<not> round64 0.8 < calculateCodeSimilarity c (codigo (snd ((e # st) ! j)))"
      proof (intro allI impI)
        fix j assume "j < Suc i"
        then show "\<not> round64 0.8 < calculateCodeSimilarity c (codigo (snd ((e # st) ! j)))"
          using i(4) False e by (cases j) auto
      qed
      with i False e have "Suc i < length (e # st) \<and> findSimilarPattern (e # st) c = Some (snd ((e # st) ! Suc i))
          \<and> round64 0.8 < calculateCodeSimilarity c (codigo (snd ((e # st) ! Suc i)))
          \<and> (\<forall>j<Suc i. \<not> round64 0.8 < calculateCodeSimilarity c (codigo (snd ((e # st) ! j))))"
        by simp
      then show ?thesis by blast
    qed
  qed
qed

section \<open>Properties of the eviction\<close>

lemma distinct_keys_sort:
  assumes "distinct (map fst st)"
  shows "distinct (map fst (sort_key f st))"
proof -
  from assms have "distinct st" "inj_on fst (set st)" by (auto simp: distinct_map)
  then show ?thesis by (simp add: distinct_map)
qed

lemma cleanupOldPatterns_take:
  assumes "distinct (map fst st)"
  shows "cleanupOldPatterns cap st = take (keepCount cap) (sort_key (\<lambda>e. - entryScore e) st)"
proof -
  have "distinct (map fst (take (keepCount cap) (sort_key (\<lambda>e. - entryScore e) st)))"
    using distinct_keys_sort [OF assms, of "\<lambda>e. - entryScore e"]
    by (metis distinct_take take_map)
  then show ?thesis
    using foldl_mapSet_append [of "take (keepCount cap) (sort_key (\<lambda>e. - entryScore e) st)" "[]"]
    by (simp add: cleanupOldPatterns_def Let_def)
qed

lemma keepCount_le: "keepCount cap \<le> cap"
proof (cases "cap = 0")
  case True
  then show ?thesis by (simp add: keepCount_def fmul_def round64_0)
next
  case False
  define x where "x = real cap * round64 (4 / 5)"
  have c1: "1 \<le> real cap" using False by simp
  have lo: "1 / 2 \<le> x" and hi: "x \<le> real cap * (3602879701896397 / 4503599627370496)"
    using c1 unfolding x_def round64_literals by simp_all
  have "2 powi (- 1022) \<le> x" using normal_half lo by linarith
  from round64_error [OF this] have "round64 x \<le> x + x / 2 ^ 53" by linarith
  also have "\<dots> \<le> real cap" using hi c1 by simp
  finally have "round64 x \<le> real cap" .
  then have "\<lfloor>round64 x\<rfloor> \<le> int cap" by linarith
  then show ?thesis by (simp add: keepCount_def fmul_def x_def)
qed

text \<open>Up to a capacity of \<open>2 ^ 50\<close> the rounded product has the integer part of the
  exact one.\<close>

lemma keepCount_floor:
  assumes "cap < 2 ^ 50"
  shows "int (keepCount cap) = \<lfloor>0.8 * real cap\<rfloor>"
proof (cases "cap = 0")
  case True
  then show ?thesis by (simp add: keepCount_def fmul_def round64_0)
next
  case False
  define t where "t = 0.8 * real cap"
  define k where "k = \<lfloor>t\<rfloor>"
  define x where "x = real cap * round64 (4 / 5)"
  have c1: "1 \<le> real cap" using False by simp
  have c50: "real cap < 2 ^ 50"
    using assms by (metis of_nat_less_iff of_nat_numeral of_nat_power)
  have xt: "x = t + t / 2 ^ 54" unfolding x_def t_def round64_literals by simp
  have t0: "0 < t" and t50: "5 * t < 2 ^ 52" using c1 c50 by (simp_all add: t_def)
  have k0: "0 \<le> k" using t0 by (simp add: k_def)
  have kt: "real_of_int k \<le> t" by (simp add: k_def)
  have "2 powi (- 1022) \<le> x" using normal_half c1 unfolding x_def round64_literals by simp
  from round64_error [OF this] have err: "round64 x \<le> x + x / 2 ^ 53" by linarith
  have five: "5 * t \<le> real_of_int (5 * k + 4)"
  proof -
    have eq: "5 * t = real (4 * cap)" by (simp add: t_def)
    moreover have "t < real_of_int k + 1" unfolding k_def by linarith
    ultimately have "real (4 * cap) < real_of_int (5 * k + 5)" by simp
    then have "int (4 * cap) < 5 * k + 5" by linarith
    then have "int (4 * cap) \<le> 5 * k + 4" by simp
    then have "real (4 * cap) \<le> real_of_int (5 * k + 4)" by linarith
    with eq show ?thesis by simp
  qed
  have "x + x / 2 ^ 53 \<le> t + t / 2 ^ 52" using t0 unfolding xt by (simp add: field_simps)
  also have "\<dots> < t + 1 / 5" using t50 by simp
  also have "\<dots> \<le> real_of_int k + 1" using five by simp
  finally have up: "round64 x < real_of_int k + 1" using err by linarith
  have low: "real_of_int k \<le> round64 x"
  proof (cases "k = 0")
    case True
    have "0 \<le> x" using t0 unfolding xt by simp
    then show ?thesis using True by (simp add: round64_nonneg)
  next
    case False
    have "x < 2 ^ 53" using t50 t0 unfolding xt by simp
    moreover have "real_of_int k \<le> x" using kt t0 unfolding xt by simp
    ultimately show ?thesis using round64_ge_int [of k x] False k0 by simp
  qed
  from low up have "\<lfloor>round64 x\<rfloor> = k" by linarith
  then show ?thesis using k0 by (simp add: keepCount_def fmul_def x_def k_def t_def)
qed

lemma keepCount_values:
  "\<lfloor>fmul 1000 (round64 0.8)\<rfloor> = 800" "\<lfloor>fmul 5 (round64 0.8)\<rfloor> = 4"
  by (simp_all add: round64_eval)

lemma keepCount_default: "keepCount MAX_PATTERNS = 800"
  unfolding keepCount_def MAX_PATTERNS_def of_nat_numeral keepCount_values by simp

text \<open>The score follows the exact product: a greater product never has a smaller score.\<close>

lemma entryScore_mono:
  assumes "real (frequencia (snd e)) * confianca (snd e)
             \<le> real (frequencia (snd e')) * confianca (snd e')"
  shows "entryScore e \<le> entryScore e'"
  unfolding entryScore_def fmul_def by (rule round64_mono [OF assms])

lemma sorted_take_drop_le:
  assumes "sorted (map f ys)" "x \<in> set (take n ys)" "y \<in> set (drop n ys)"
  shows "f x \<le> f y"
proof -
  have "sorted (map f (take n ys) @ map f (drop n ys))"
    using assms(1) by (metis append_take_drop_id map_append)
  then show ?thesis using assms(2,3) by (auto simp: sorted_append)
qed

lemma filter_split:
  "filter P xs = us @ a # rest \<Longrightarrow> \<exists>as bs. xs = as @ a # bs \<and> filter P bs = rest"
proof (induction us arbitrary: xs)
  case Nil
  then show ?case by (auto simp: filter_eq_Cons_iff)
next
  case (Cons u us)
  then obtain p q where pq: "xs = p @ u # q" "filter P q = us @ a # rest"
    by (auto simp: filter_eq_Cons_iff)
  from Cons.IH [OF pq(2)] obtain as bs where "q = as @ a # bs" "filter P bs = rest" by blast
  with pq(1) have "xs = (p @ u # as) @ a # bs \<and> filter P bs = rest" by simp
  then show ?case by blast
qed

lemma before_in_filter:
  assumes "filter P xs = us @ a # vs @ b # ws"
  shows "\<exists>as bs cs. xs = as @ a # bs @ b # cs"
proof -
  from filter_split [OF assms] obtain as r where r: "xs = as @ a # r" "filter P r = vs @ b # ws"
    by blast
  from filter_split [OF r(2)] obtain bs cs where "r = bs @ b # cs" by blast
  with r(1) show ?thesis by blast
qed

lemma stable_tie:
  assumes "x \<in> set (take n (sort_key f st))" "y \<in> set (drop n (sort_key f st))" "f x = f y"
  shows "\<exists>as bs cs. st = as @ x # bs @ y # cs"
proof -
  let ?ys = "sort_key f st"
  let ?P = "\<lambda>z. f z = f x"
  from assms(1) obtain u1 u2 where t: "take n ?ys = u1 @ x # u2" by (meson split_list)
  from assms(2) obtain v1 v2 where d: "drop n ?ys = v1 @ y # v2" by (meson split_list)
  have "filter ?P st = filter ?P ?ys" by (rule sort_key_stable [symmetric])
  also have "\<dots> = filter ?P (take n ?ys @ drop n ?ys)" by simp
  also have "\<dots> = filter ?P u1 @ x # (filter ?P u2 @ filter ?P v1) @ y # filter ?P v2"
    using assms(3) by (simp add: t d del: append_take_drop_id)
  finally show ?thesis by (rule before_in_filter)
qed

lemma distinct_mapSet: "distinct (map fst st) \<Longrightarrow> distinct (map fst (mapSet st k v))"
proof (cases "map_of st k")
  case None
  assume "distinct (map fst st)"
  with None show ?thesis by (auto simp: mapSet_absent map_of_eq_None_iff)
next
  case (Some p)
  assume "distinct (map fst st)"
  with Some show ?thesis by (simp add: keys_mapSet_present)
qed

lemma length_mapSet_le: "length (mapSet st k v) \<le> Suc (length st)"
  by (induction st k v rule: mapSet.induct) auto

lemma length_mapSet_present: "map_of st k = Some p \<Longrightarrow> length (mapSet st k v) = length st"
  using keys_mapSet_present [of st k p v] by (metis length_map)

lemma pipeline_frequency:
  "mapGet st (generatePatternId c) = Some p \<Longrightarrow> \<forall>x\<in>set calls. content (fst x) = c \<Longrightarrow>
     \<exists>p'. mapGet (processFragments cap st lang calls) (generatePatternId c) = Some p' \<and>
          frequencia p \<le> frequencia p' \<and> frequencia p' \<le> frequencia p + length calls"
proof (induction calls arbitrary: st p)
  case Nil
  then show ?case by simp
next
  case (Cons x calls)
  obtain f now where x: "x = (f, now)" by (cases x)
  have cx: "content f = c" using Cons.prems(2) x by simp
  have rest: "\<forall>y\<in>set calls. content (fst y) = c" using Cons.prems(2) by simp
  show ?case
  proof (cases "isWorthLearning st f")
    case True
    have get: "mapGet st (generatePatternId (content f)) = Some p"
      using Cons.prems(1) cx by simp
    from learn_existing_get [OF get, of cap lang now] cx
    obtain q where q: "mapGet (learnFromFragment cap st f lang now) (generatePatternId c) = Some q"
      and fq: "frequencia q = frequencia p + 1" by simp
    from Cons.IH [OF q rest] obtain p' where
      "mapGet (processFragments cap (learnFromFragment cap st f lang now) lang calls)
         (generatePatternId c) = Some p'"
      "frequencia q \<le> frequencia p'" "frequencia p' \<le> frequencia q + length calls" by blast
    with fq True x show ?thesis by (intro exI [of _ p']) simp
  next
    case False
    from Cons.IH [OF Cons.prems(1) rest] obtain p' where
      "mapGet (processFragments cap st lang calls) (generatePatternId c) = Some p'"
      "frequencia p \<le> frequencia p'" "frequencia p' \<le> frequencia p + length calls" by blast
    with False x show ?thesis by (intro exI [of _ p']) simp
  qed
qed

lemma set_mapSet_subset: "set (mapSet st k v) \<subseteq> insert (k, v) (set st)"
  by (induction st k v rule: mapSet.induct) auto

lemma learnFromFragment_variants_distinct:
  assumes "distinct (map fst st)" and "\<forall>e\<in>set st. distinct (variacoes (snd e))"
  shows "\<forall>e\<in>set (learnFromFragment cap st f lang now). distinct (variacoes (snd e))"
proof (cases "mapGet st (generatePatternId (content f))")
  case (Some p)
  then have "(generatePatternId (content f), p) \<in> set st"
    by (simp add: mapGet_def map_of_SomeD)
  with assms(2) have dp: "distinct (variacoes p)" by force
  let ?p' = "p\<lparr> frequencia := frequencia p + 1, ultimoUso := now,
                 variacoes := (if content f \<in> set (variacoes p) then variacoes p
                               else variacoes p @ [content f]) \<rparr>"
  have "distinct (variacoes ?p')" using dp by simp
  with assms(2) set_mapSet_subset [of st "generatePatternId (content f)" ?p']
  show ?thesis unfolding learn_existing [OF Some] by force
next
  case None
  define new where "new = \<lparr> pid = generatePatternId (content f), codigo = content f,
          contexto = fcontext f, frequencia = 1, ultimoUso = now,
          gatilhos = extractTriggers (content f) (fcontext f), tipoArquivo = lang,
          confianca = calculatePatternConfidence f, variacoes = [] \<rparr>"
  define st' where "st' = mapSet st (generatePatternId (content f)) new"
  have d': "distinct (map fst st')" unfolding st'_def by (rule distinct_mapSet [OF assms(1)])
  have all': "\<forall>e\<in>set st'. distinct (variacoes (snd e))"
    using assms(2) set_mapSet_subset [of st "generatePatternId (content f)" new]
    unfolding st'_def by (force simp: new_def)
  have "set (cleanupOldPatterns cap st') \<subseteq> set st'"
    using set_take_subset [of "keepCount cap" "sort_key (\<lambda>e. - entryScore e) st'"]
    by (simp add: cleanupOldPatterns_take [OF d'])
  with all' have "\<forall>e\<in>set (cleanupOldPatterns cap st'). distinct (variacoes (snd e))" by blast
  moreover have "learnFromFragment cap st f lang now
          = (if length st' > cap then cleanupOldPatterns cap st' else st')"
    using None by (simp add: learnFromFragment_def Let_def st'_def new_def)
  ultimately show ?thesis using all' by simp
qed

section \<open>Properties of the edit distance and of the similarity score\<close>

lemma levRow_length:
  "length prev = Suc (length s1) \<Longrightarrow> length (levRow c s1 prev left) = length s1"
proof (induction s1 arbitrary: prev left)
  case Nil
  then show ?case by simp
next
  case (Cons a s1)
  then obtain d u p where prev: "prev = d # u # p"
    by (cases prev; cases "tl prev") auto
  with Cons show ?case by (simp add: Let_def)
qed

lemma levRow_bound:
  "length prev = Suc (length s1) \<Longrightarrow>
   (\<forall>k<length prev. prev ! k \<le> max (i + k) j) \<Longrightarrow>
   left \<le> max i (Suc j) \<Longrightarrow>
   k < length s1 \<Longrightarrow>
   levRow c s1 prev left ! k \<le> max (Suc (i + k)) (Suc j)"
proof (induction s1 arbitrary: prev left i k)
  case Nil
  then show ?case by simp
next
  case (Cons a s1)
  then obtain d u p where prev: "prev = d # u # p"
    by (cases prev; cases "tl prev") auto
  define v where "v = min (min (left + 1) (u + 1)) (d + (if a = c then 0 else 1))"
  have d: "d \<le> max i j" using Cons.prems(2) prev by (auto dest: spec [of _ 0])
  have v: "v \<le> max (Suc i) (Suc j)"
    using d unfolding v_def by (auto simp: min_def max_def)
  have row: "levRow c (a # s1) prev left = v # levRow c s1 (u # p) v"
    by (simp add: prev v_def Let_def)
  show ?case
  proof (cases k)
    case 0
    with row v show ?thesis by simp
  next
    case (Suc k')
    have len: "length (u # p) = Suc (length s1)" using Cons.prems(1) prev by simp
    have bnd: "\<forall>m<length (u # p). (u # p) ! m \<le> max (Suc i + m) j"
    proof (intro allI impI)
      fix m assume "m < length (u # p)"
      then have "Suc m < length prev" by (simp add: prev)
      with Cons.prems(2) have "prev ! Suc m \<le> max (i + Suc m) j" by blast
      then show "(u # p) ! m \<le> max (Suc i + m) j" by (simp add: prev)
    qed
    have k': "k' < length s1" using Cons.prems(4) Suc by simp
    from Cons.IH [OF len bnd v k'] row Suc show ?thesis by simp
  qed
qed

lemma rowOK_step:
  assumes "rowOK (length s1) j row"
  shows "rowOK (length s1) (Suc j) (Suc j # levRow c s1 row (Suc j))"
proof -
  from assms have len: "length row = Suc (length s1)"
    and bnd: "\<forall>k<length row. row ! k \<le> max (0 + k) j"
    by (auto simp: rowOK_def)
  have "(Suc j # levRow c s1 row (Suc j)) ! i \<le> max i (Suc j)" if "i \<le> length s1" for i
  proof (cases i)
    case 0
    then show ?thesis by simp
  next
    case (Suc k)
    with that have "k < length s1" by simp
    from levRow_bound [OF len bnd _ this, of "Suc j" c] Suc show ?thesis by simp
  qed
  then show ?thesis by (simp add: rowOK_def levRow_length [OF len])
qed

lemma rowOK_fold:
  "rowOK (length s1) j row \<Longrightarrow>
   rowOK (length s1) (j + length s2)
     (foldl (\<lambda>prev jc. fst jc # levRow (snd jc) s1 prev (fst jc)) row
        (zip [Suc j ..< Suc (j + length s2)] s2))"
proof (induction s2 arbitrary: j row)
  case Nil
  then show ?case by simp
next
  case (Cons c s2)
  have upt: "[Suc j ..< Suc (j + length (c # s2))] = Suc j # [Suc (Suc j) ..< Suc (Suc j + length s2)]"
    by (simp add: upt_conv_Cons del: upt_Suc)
  from Cons.IH [OF rowOK_step [OF Cons.prems, of c]] show ?case
    unfolding upt by (simp del: upt_Suc)
qed

lemma levMatrixRows_ok: "rowOK (length s1) (length s2) (levMatrixRows s1 s2)"
proof -
  have "rowOK (length s1) 0 [0 ..< Suc (length s1)]"
    by (auto simp: rowOK_def simp del: upt_Suc)
  from rowOK_fold [OF this, of s2] show ?thesis
    by (simp add: levMatrixRows_def del: upt_Suc)
qed

lemma levenshteinDistance_le: "levenshteinDistance s1 s2 \<le> max (length s1) (length s2)"
proof -
  from levMatrixRows_ok [of s1 s2]
  have len: "length (levMatrixRows s1 s2) = Suc (length s1)"
    and nth: "levMatrixRows s1 s2 ! length s1 \<le> max (length s1) (length s2)"
    by (auto simp: rowOK_def)
  from len have "levMatrixRows s1 s2 \<noteq> []" by auto
  then have "last (levMatrixRows s1 s2) = levMatrixRows s1 s2 ! length s1"
    by (simp add: last_conv_nth len)
  with nth have "last (levMatrixRows s1 s2) \<le> max (length s1) (length s2)" by simp
  then show ?thesis by (simp add: levenshteinDistance_def)
qed

lemma distanceTerm_range:
  assumes "str1 \<noteq> [] \<or> str2 \<noteq> []"
  shows "\<exists>d. distanceTerm str1 str2 = Some d \<and> 0 \<le> d \<and> d \<le> 1"
proof -
  let ?m = "max (length str1) (length str2)"
  have pos: "0 < ?m" using assms by (auto simp: less_max_iff_disj)
  have "real (levenshteinDistance str1 str2) \<le> real ?m"
    using levenshteinDistance_le [of str1 str2] by (simp only: of_nat_le_iff)
  with pos have "real (levenshteinDistance str1 str2) / real ?m \<le> 1" by simp
  moreover have "0 \<le> real (levenshteinDistance str1 str2) / real ?m" by simp
  ultimately show ?thesis using pos assms
    by (auto simp: distanceTerm_def jsDivide_def Let_def)
qed

lemma methodMatchScore_test:
  assumes "includesStr body1 ''test''" "includesStr body2 ''test''"
  shows "0.05 \<le> methodMatchScore body1 body2"
proof -
  have "1 \<le> length (filter (\<lambda>pat. includesStr body1 pat \<and> includesStr body2 pat)
        [''test'', ''validate'', ''check'', ''get'', ''set'', ''create'', ''update'', ''delete''])"
    using assms by simp
  then show ?thesis unfolding methodMatchScore_def by simp
qed

lemma structureMatchScore_nonneg: "0 \<le> structureMatchScore body1 body2"
  by (simp add: structureMatchScore_def)

lemma function_similarity_lower_bound:
  assumes "params1 \<noteq> []" "params2 = params1"
      and "includesStr body1 ''test''" "includesStr body2 ''test''"
  shows "\<exists>s. calculateSimilarity (FunctionDeclaration n1 params1 (Some body1))
                 (FunctionDeclaration n2 params2 (Some body2)) = Some s \<and> 0.55 \<le> s \<and> s \<le> 1"
proof -
  have ne: "body1 \<noteq> [] \<or> body2 \<noteq> []"
    using includesStr_nonempty [OF assms(3)] by simp
  from distanceTerm_range [OF ne] obtain d
    where d: "distanceTerm body1 body2 = Some d" "0 \<le> d" "d \<le> 1" by blast
  have zipf: "filter (\<lambda>pq. fst pq = snd pq) (zip params1 params1) = zip params1 params1"
    by (auto simp: filter_id_conv in_set_zip)
  have ratio: "jsDivide (real (length (filter (\<lambda>pq. fst pq = snd pq) (zip params1 params2))))
                 (real (length params1)) = Some 1"
    using assms(1,2) by (simp add: jsDivide_def zipf)
  have mm: "0.05 \<le> min 0.2 (methodMatchScore body1 body2)"
    using methodMatchScore_test [OF assms(3,4)] by simp
  have sm: "0 \<le> min 0.2 (structureMatchScore body1 body2)"
    using structureMatchScore_nonneg [of body1 body2] by simp
  have eq: "calculateSimilarity (FunctionDeclaration n1 params1 (Some body1))
                 (FunctionDeclaration n2 params2 (Some body2))
            = Some (clamp01 (0.3 + 0.2 + (min 0.2 (methodMatchScore body1 body2)
                      + min 0.2 (structureMatchScore body1 body2) + 0.1 * d)))"
    using assms(2) ratio d(1) by simp
  have "0.55 \<le> 0.3 + 0.2 + (min 0.2 (methodMatchScore body1 body2)
                      + min 0.2 (structureMatchScore body1 body2) + 0.1 * d)"
    using mm sm d(2) by simp
  then have "0.55 \<le> clamp01 (0.3 + 0.2 + (min 0.2 (methodMatchScore body1 body2)
                      + min 0.2 (structureMatchScore body1 body2) + 0.1 * d))"
    by (simp add: clamp01_def)
  moreover have "clamp01 x \<le> 1" for x by (simp add: clamp01_def)
  ultimately show ?thesis using eq by simp
qed

section \<open>Properties of the suggestion query, the snippet fallback and the extractor\<close>

lemma concat_map_if:
  "concat (map (\<lambda>e. if P e then [g e] else []) xs) = map g (filter P xs)"
  by (induction xs) auto
lemma candidateSuggestions_filter:
  "candidateSuggestions st tc lang
     = map (\<lambda>e. makeSuggestion (snd e) (calculateRelevance (snd e) tc lang))
         (filter (\<lambda>e. round64 0.3 < calculateRelevance (snd e) tc lang) st)"
  by (simp add: candidateSuggestions_def Let_def concat_map_if)
lemma similarityOr0_makeSuggestion: "similarityOr0 (makeSuggestion p r) = r"
  by (simp add: makeSuggestion_def similarityOr0_def)
lemma candidate_relevant:
  assumes "s \<in> set (candidateSuggestions st tc lang)"
  shows "round64 0.3 < similarityOr0 s"
proof -
  from assms obtain e :: "string \<times> LearnedPattern" where "s = makeSuggestion (snd e) (calculateRelevance (snd e) tc lang)"
    and "round64 0.3 < calculateRelevance (snd e) tc lang"
    unfolding candidateSuggestions_filter by auto
  then show ?thesis by (simp add: similarityOr0_makeSuggestion)
qed
lemma fadd_0_literal: "fadd 0 (round64 0.2) = round64 0.2"
  by (simp add: round64_eval)

lemma calculateRelevance_formula:
  "calculateRelevance p typingContext lang =
     (let base = fadd (fadd (if tipoArquivo p = lang then round64 0.2 else 0)
                            (fmul (confianca p) (round64 0.3)))
                      (min (round64 0.2) (fmul (real (frequencia p)) (round64 0.02)));
          matching = length (filter (\<lambda>trigger. \<exists>word\<in>set typingContext.
                                        includesStr word trigger \<or> includesStr trigger word)
                               (gatilhos p))
      in min 1 (if gatilhos p = [] then base
                else fadd base (fmul (fdiv (real matching) (real (length (gatilhos p))))
                                  (round64 0.3))))"
  unfolding calculateRelevance_def Let_def list_ex_iff fadd_0_literal
  by (cases "gatilhos p = []"; cases "tipoArquivo p = lang") simp_all

text \<open>The relevance that the source computes differs from the relevance in exact
  arithmetic by less than \<open>2 ^ -49\<close>, for a confidence in the unit interval.\<close>

lemma min_close:
  fixes a b c d e :: real
  assumes "\<bar>a - c\<bar> \<le> e" "\<bar>b - d\<bar> \<le> e"
  shows "\<bar>min a b - min c d\<bar> \<le> e"
  using assms by linarith

lemma frequency_term_error:
  "\<bar>min (round64 0.2) (fmul (real f) (round64 0.02)) - min 0.2 (0.02 * real f)\<bar>
     \<le> 2 / 9007199254740992
   \<and> 0 \<le> min (round64 0.2) (fmul (real f) (round64 0.02))
   \<and> min (round64 0.2) (fmul (real f) (round64 0.02)) \<le> 1 / 4"
proof -
  define x where "x = real f * (5764607523034235 / 288230376151711744)"
  define y where "y = round64 x"
  have F: "min (round64 0.2) (fmul (real f) (round64 0.02))
             = min (3602879701896397 / 18014398509481984) y"
    by (simp add: fmul_def y_def x_def round64_literals)
  have b: "\<bar>3602879701896397 / 18014398509481984 - (0.2::real)\<bar> \<le> 2 / 9007199254740992"
    by simp
  have c: "(0::real) \<le> 3602879701896397 / 18014398509481984"
    "(3602879701896397 / 18014398509481984 :: real) \<le> 1 / 4" by simp_all
  show ?thesis
  proof (cases "f \<le> 12")
    case True
    then have f12: "real f \<le> 12" by simp
    have x0: "0 \<le> x" and x2: "x < 2" using f12 by (simp_all add: x_def)
    have e1: "\<bar>y - x\<bar> \<le> 1 / 9007199254740992"
      using round64_abs_error [OF x0 x2] by (simp add: y_def)
    have e2: "\<bar>x - 0.02 * real f\<bar> \<le> 1 / 9007199254740992" using f12 by (simp add: x_def)
    have n: "0 \<le> y" unfolding y_def by (rule round64_nonneg [OF x0])
    have a: "\<bar>y - 0.02 * real f\<bar> \<le> 2 / 9007199254740992" using e1 e2 by linarith
    from min_close [OF b a] n c show ?thesis unfolding F by linarith
  next
    case False
    then have f13: "13 \<le> real f" by simp
    have xl: "1 / 4 \<le> x" using f13 by (simp add: x_def)
    with normal_quarter have "2 powi (- 1022) \<le> x" by linarith
    from round64_error [OF this] have "x - x / 2 ^ 53 \<le> y" unfolding y_def by linarith
    with xl have big: "3602879701896397 / 18014398509481984 \<le> y" by simp
    have ex: "0.2 \<le> 0.02 * real f" using f13 by simp
    from big ex b c show ?thesis unfolding F by linarith
  qed
qed

lemma relevance_error:
  assumes c0: "0 \<le> confianca p" and c1: "confianca p \<le> 1"
  shows "\<bar>calculateRelevance p typingContext lang - specRelevance p typingContext lang\<bar>
           \<le> 1 / 2 ^ 49"
proof -
  define E :: real where "E = 1 / 9007199254740992"
  have E: "0 < E" "E \<le> 1 / 1000" by (simp_all add: E_def)
  define c where "c = confianca p"
  define f where "f = real (frequencia p)"
  define L where "L = (if tipoArquivo p = lang then round64 0.2 else 0)"
  define l :: real where "l = (if tipoArquivo p = lang then 0.2 else 0)"
  have L: "\<bar>L - l\<bar> \<le> E" "0 \<le> L" "L \<le> 1 / 4"
    by (simp_all add: L_def l_def E_def round64_literals)
  define x where "x = c * (5404319552844595 / 18014398509481984)"
  define P where "P = fmul (confianca p) (round64 0.3)"
  have Px: "P = round64 x" by (simp add: P_def fmul_def x_def c_def round64_literals)
  have x0: "0 \<le> x" and x2: "x < 2" using c0 c1 by (simp_all add: x_def c_def)
  have xc: "\<bar>x - 0.3 * c\<bar> \<le> E" using c0 c1 by (simp add: x_def c_def E_def)
  have "\<bar>P - x\<bar> \<le> E" using round64_abs_error [OF x0 x2] by (simp add: Px E_def)
  with xc have Pc: "\<bar>P - 0.3 * c\<bar> \<le> 2 * E" by linarith
  have P0: "0 \<le> P" unfolding Px by (rule round64_nonneg [OF x0])
  have Pu: "P \<le> 1 / 2" using Pc c1 E unfolding c_def by linarith
  define R2 where "R2 = fadd L P"
  have R2e: "\<bar>R2 - (L + P)\<bar> \<le> E"
    using fadd_error [of L P] L P0 Pu by (simp add: R2_def E_def)
  with L Pc have R2c: "\<bar>R2 - (l + 0.3 * c)\<bar> \<le> 4 * E" by linarith
  have R20: "0 \<le> R2" unfolding R2_def fadd_def using L P0 by (intro round64_nonneg) simp
  have R2u: "R2 \<le> 4 / 5" using R2e L Pu E by linarith
  define F where "F = min (round64 0.2) (fmul (real (frequencia p)) (round64 0.02))"
  from frequency_term_error [of "frequencia p"]
  have Fc: "\<bar>F - min 0.2 (0.02 * f)\<bar> \<le> 2 * E" and F0: "0 \<le> F" and Fu: "F \<le> 1 / 4"
    by (simp_all add: F_def f_def E_def)
  define R3 where "R3 = fadd R2 F"
  have R3e: "\<bar>R3 - (R2 + F)\<bar> \<le> E"
    using fadd_error [of R2 F] R20 R2u F0 Fu by (simp add: R3_def E_def)
  with R2c Fc have R3c: "\<bar>R3 - (l + 0.3 * c + min 0.2 (0.02 * f))\<bar> \<le> 7 * E" by linarith
  have R30: "0 \<le> R3" unfolding R3_def fadd_def using R20 F0 by (intro round64_nonneg) simp
  have R3u: "R3 \<le> 11 / 10" using R3e R2u Fu E by linarith
  define m where "m = length (filter (\<lambda>trigger. \<exists>word\<in>set typingContext.
                            includesStr word trigger \<or> includesStr trigger word) (gatilhos p))"
  define n where "n = length (gatilhos p)"
  have cr: "calculateRelevance p typingContext lang
              = min 1 (if gatilhos p = [] then R3
                       else fadd R3 (fmul (fdiv (real m) (real n)) (round64 0.3)))"
    unfolding calculateRelevance_formula Let_def R3_def R2_def L_def P_def F_def m_def n_def ..
  have sr: "specRelevance p typingContext lang
              = min 1 (l + 0.3 * c + min 0.2 (0.02 * f)
                       + 0.3 * (if gatilhos p = [] then 0 else real m / real n))"
    unfolding specRelevance_def l_def c_def f_def m_def n_def ..
  have sixteen: "1 / 2 ^ 49 = 16 * E" by (simp add: E_def)
  show ?thesis
  proof (cases "gatilhos p = []")
    case True
    with R3c E show ?thesis unfolding cr sr sixteen by simp
  next
    case False
    define q where "q = real m / real n"
    have n0: "0 < n" using False by (simp add: n_def)
    have mn: "m \<le> n" unfolding m_def n_def by (rule length_filter_le)
    have q0: "0 \<le> q" and q1: "q \<le> 1" using n0 mn by (simp_all add: q_def)
    define Q where "Q = fdiv (real m) (real n)"
    have Qe: "\<bar>Q - q\<bar> \<le> E"
      using fdiv_error [of "real m" "real n"] q0 q1 by (simp add: Q_def q_def E_def)
    have Q0: "0 \<le> Q"
      unfolding Q_def fdiv_def using q0 by (intro round64_nonneg) (simp add: q_def)
    define y where "y = Q * (5404319552844595 / 18014398509481984)"
    define T where "T = fmul Q (round64 0.3)"
    have Ty: "T = round64 y" by (simp add: T_def fmul_def y_def round64_literals)
    have y0: "0 \<le> y" using Q0 by (simp add: y_def)
    have yq: "\<bar>y - 0.3 * q\<bar> \<le> 2 * E" using Qe q0 q1 E unfolding y_def E_def by linarith
    have y2: "y < 2" using yq q1 E by linarith
    have "\<bar>T - y\<bar> \<le> E" using round64_abs_error [OF y0 y2] by (simp add: Ty E_def)
    with yq have Tc: "\<bar>T - 0.3 * q\<bar> \<le> 3 * E" by linarith
    have T0: "0 \<le> T" unfolding Ty by (rule round64_nonneg [OF y0])
    have Tu: "T \<le> 1 / 2" using Tc q1 E by linarith
    define R4 where "R4 = fadd R3 T"
    have "\<bar>R4 - (R3 + T)\<bar> \<le> E"
      using fadd_error [of R3 T] R30 R3u T0 Tu by (simp add: R4_def E_def)
    with R3c Tc have R4c: "\<bar>R4 - (l + 0.3 * c + min 0.2 (0.02 * f) + 0.3 * q)\<bar> \<le> 11 * E"
      by linarith
    have cr': "calculateRelevance p typingContext lang = min 1 R4"
      using False by (simp add: cr R4_def T_def Q_def)
    have sr': "specRelevance p typingContext lang
                 = min 1 (l + 0.3 * c + min 0.2 (0.02 * f) + 0.3 * q)"
      using False by (simp add: sr q_def)
    from R4c E show ?thesis unfolding cr' sr' sixteen by linarith
  qed
qed

lemma code_createBasicSnippet: "code (createBasicSnippet src) = src"
  by (simp add: createBasicSnippet_def Let_def)

lemma malformed_fallback:
  "createBasicSnippet malformedSnippet =
     \<lparr> title = Some ''function test( { // malformed'',
       description = Some ''Auto-generated snippet'',
       language = Some ''javascript'',
       code = ''function test( { // malformed'',
       pattern = None, similarity = None \<rparr>"
  by (simp add: createBasicSnippet_def malformedSnippet_def trim_def isSpace_def Let_def)

lemma calculateComplexity_ge_1: "1 \<le> calculateComplexity c"
  by (simp add: calculateComplexity_def)

lemma namedDeclarationFragments_complexity:
  assumes "f \<in> set (namedDeclarationFragments document tag ty nd)"
  shows "complexity f = calculateComplexity (content f)"
proof (cases "ast_loc nd")
  case None
  with assms show ?thesis
    by (cases "ast_type nd = tag") (simp_all add: namedDeclarationFragments_def)
next
  case (Some lines)
  with assms have "f = declarationFragment document ty lines"
    by (cases "ast_type nd = tag"; cases "hasName nd")
       (simp_all add: namedDeclarationFragments_def)
  then show ?thesis by (simp add: declarationFragment_def Let_def)
qed

lemma variableFragments_complexity:
  assumes "f \<in> set (variableFragments document nd)"
  shows "complexity f = calculateComplexity (content f)"
proof (cases "ast_loc nd")
  case None
  with assms show ?thesis
    by (cases "ast_type nd = ''VariableDeclaration''") (simp_all add: variableFragments_def)
next
  case (Some lines)
  with assms show ?thesis
    by (cases "ast_type nd = ''VariableDeclaration''";
        cases "isInterestingVariable (trim (getText document (fst lines - 1) (snd lines - 1)))")
       (simp_all add: variableFragments_def Let_def)
qed

lemma importFragments_complexity:
  assumes "f \<in> set (importFragments document nd)"
  shows "complexity f = 1"
proof (cases "ast_loc nd")
  case None
  with assms show ?thesis
    by (cases "ast_type nd = ''ImportDeclaration''") (simp_all add: importFragments_def)
next
  case (Some lines)
  with assms show ?thesis
    by (cases "ast_type nd = ''ImportDeclaration''") (simp_all add: importFragments_def Let_def)
qed

lemma blockFragment_complexity:
  assumes "f \<in> set (blockFragment document ty lines)"
  shows "complexity f = calculateComplexity (content f)"
proof -
  let ?start = "fst lines - 1"
  let ?end = "min (docLineCount document - 1) (snd lines - 1)"
  from assms show ?thesis
    by (cases "?end > ?start \<and> ?end - ?start + 1 \<le> 40";
        cases "length (getText document ?start ?end) \<ge> MIN_PATTERN_LENGTH")
       (simp_all add: blockFragment_def Let_def)
qed

lemma blockFragments_complexity:
  assumes "f \<in> set (blockFragments document nd)"
  shows "complexity f = calculateComplexity (content f)"
proof -
  from assms obtain bt where "bt \<in> set blockTypes"
    and f: "f \<in> set (if snd bt (ast_type nd)
                       then (case ast_loc nd of
                               Some lines \<Rightarrow> blockFragment document (fst bt) lines
                             | None \<Rightarrow> [])
                       else [])"
    unfolding blockFragments_def set_concat set_map by blast
  show ?thesis
  proof (cases "ast_loc nd")
    case None
    with f show ?thesis by (cases "snd bt (ast_type nd)") simp_all
  next
    case (Some lines)
    with f have "f \<in> set (blockFragment document (fst bt) lines)"
      by (cases "snd bt (ast_type nd)") simp_all
    then show ?thesis by (rule blockFragment_complexity)
  qed
qed

lemma extractFunctions_complexity:
  "f \<in> set (extractFunctions document t) \<Longrightarrow> complexity f = calculateComplexity (content f)"
proof (induction document t rule: extractFunctions.induct)
  case (1 document ty l name children)
  then show ?case by (auto simp: namedDeclarationFragments_complexity)
qed

lemma extractClasses_complexity:
  "f \<in> set (extractClasses document t) \<Longrightarrow> complexity f = calculateComplexity (content f)"
proof (induction document t rule: extractClasses.induct)
  case (1 document ty l name children)
  then show ?case by (auto simp: namedDeclarationFragments_complexity)
qed

lemma extractVariables_complexity:
  "f \<in> set (extractVariables document t) \<Longrightarrow> complexity f = calculateComplexity (content f)"
proof (induction document t rule: extractVariables.induct)
  case (1 document ty l name children)
  then show ?case by (auto simp: variableFragments_complexity)
qed

lemma extractImports_complexity:
  "f \<in> set (extractImports document t) \<Longrightarrow> complexity f = 1"
proof (induction document t rule: extractImports.induct)
  case (1 document ty l name children)
  then show ?case by (auto simp: importFragments_complexity)
qed

lemma extractBlocks_complexity:
  "f \<in> set (extractBlocks document t) \<Longrightarrow> complexity f = calculateComplexity (content f)"
proof (induction document t rule: extractBlocks.induct)
  case (1 document ty l name children)
  then show ?case by (auto simp: blockFragments_complexity)
qed

lemma extractCodeFragments_complexity:
  assumes "f \<in> set (extractCodeFragments document tree)"
  shows "1 \<le> complexity f"
proof -
  from assms have "complexity f = calculateComplexity (content f) \<or> complexity f = 1"
    by (auto simp: extractCodeFragments_def extractFunctions_complexity
        extractClasses_complexity extractVariables_complexity extractImports_complexity
        extractBlocks_complexity split: option.splits)
  then show ?thesis using calculateComplexity_ge_1 [of "content f"] by auto
qed

section \<open>Facts about the concrete inputs\<close>

lemma validateEmail_complexity: "calculateComplexity validateEmailContent = 5 / 2"
  by (simp add: calculateComplexity_def validateEmailContent_def)

lemma validateEmail_structure: "hasGoodStructure validateEmailContent"
  by (simp add: hasGoodStructure_def validateEmailContent_def)

lemma validateEmail_confidence: "calculatePatternConfidence validateEmailFragment = 1"
  by (simp add: calculatePatternConfidence_def validateEmailFragment_def
      validateEmail_complexity validateEmail_structure)
     (simp add: round64_eval)

lemma validateEmail_length: "length validateEmailContent = 80"
  by (simp add: validateEmailContent_def)

lemma validateEmail_worth_empty: "isWorthLearning [] validateEmailFragment"
  by (simp add: isWorthLearning_def validateEmailFragment_def validateEmail_complexity
      validateEmail_length MIN_PATTERN_LENGTH_def)

lemma validateEmail_first_learn:
  "learnFromFragment MAX_PATTERNS [] validateEmailFragment ''javascript'' 10 =
     [(generatePatternId validateEmailContent, validateEmailPattern)]"
  using learn_new [of "[]" validateEmailFragment MAX_PATTERNS "''javascript''" 10]
    validateEmail_confidence
  by (simp add: mapGet_def MAX_PATTERNS_def validateEmailFragment_def validateEmailPattern_def)

lemma validateEmail_stored:
  "mapGet [(generatePatternId validateEmailContent, validateEmailPattern)]
     (generatePatternId (content validateEmailFragment)) = Some validateEmailPattern"
  by (simp add: mapGet_def validateEmailFragment_def)

lemma validateEmail_not_worth_again:
  "\<not> isWorthLearning [(generatePatternId validateEmailContent, validateEmailPattern)]
       validateEmailFragment"
  by (simp add: isWorthLearning_def validateEmailFragment_def validateEmailPattern_def
      validateEmail_complexity validateEmail_length MIN_PATTERN_LENGTH_def
      calculateCodeSimilarity_self round64_literals)

lemma config_complexity: "calculateComplexity configContent = 3 / 2"
  by (simp add: calculateComplexity_def configContent_def)

lemma config_structure: "\<not> hasGoodStructure configContent"
  by (simp add: hasGoodStructure_def configContent_def)

lemma config_confidence: "calculatePatternConfidence configFragment = round64 0.65"
  by (simp add: calculatePatternConfidence_def configFragment_def
      config_complexity config_structure)
     (simp add: round64_eval)

lemma config_length: "length configContent = 46"
  by (simp add: configContent_def)

lemma config_worth_empty: "isWorthLearning [] configFragment"
  by (simp add: isWorthLearning_def configFragment_def config_complexity
      config_length MIN_PATTERN_LENGTH_def)

lemma config_first_learn:
  "learnFromFragment MAX_PATTERNS [] configFragment ''javascript'' 10 =
     [(generatePatternId configContent, configPattern)]"
  using learn_new [of "[]" configFragment MAX_PATTERNS "''javascript''" 10] config_confidence
  by (simp add: mapGet_def MAX_PATTERNS_def configFragment_def configPattern_def)

lemma config_stored:
  "mapGet [(generatePatternId configContent, configPattern)]
     (generatePatternId (content configFragment)) = Some configPattern"
  by (simp add: mapGet_def configFragment_def)

lemma config_worth_again:
  "isWorthLearning [(generatePatternId configContent, configPattern)] configFragment"
  by (simp add: isWorthLearning_def configFragment_def configPattern_def
      config_complexity config_length MIN_PATTERN_LENGTH_def calculateCodeSimilarity_self
      round64_literals)

lemma config_two_passes:
  "processFragments MAX_PATTERNS [] ''javascript'' [(configFragment, 10), (configFragment, 20)]
     = [(generatePatternId configContent,
         configPattern\<lparr> frequencia := 2, ultimoUso := 20, variacoes := [configContent] \<rparr>)]"
proof -
  have "processFragments MAX_PATTERNS [] ''javascript'' [(configFragment, 10), (configFragment, 20)]
      = learnFromFragment MAX_PATTERNS [(generatePatternId configContent, configPattern)]
          configFragment ''javascript'' 20"
    by (simp add: config_worth_empty config_first_learn config_worth_again)
  also have "\<dots> = [(generatePatternId configContent,
         configPattern\<lparr> frequencia := 2, ultimoUso := 20, variacoes := [configContent] \<rparr>)]"
    unfolding learn_existing [OF config_stored]
    by (simp add: configPattern_def configFragment_def)
  finally show ?thesis .
qed

lemma sum_similarity:
  "calculateCodeSimilarity sumCommentContent sumContent = round64 (13 / 15)"
  by (simp add: calculateCodeSimilarity_def sumCommentContent_def sumContent_def splitWs_def
      isSpace_def dedupe_def fdiv_def)

lemma sum_confidence:
  "calculatePatternConfidence
     \<lparr> content = sumContent, ftype = funcao, fcontext = sumContent, lineCount = 4,
       complexity = calculateComplexity sumContent \<rparr> = confianca sumPattern"
  by (simp add: calculatePatternConfidence_def calculateComplexity_def hasGoodStructure_def
      sumContent_def sumPattern_def)
     (simp add: round64_eval)

lemma demo_distinct: "distinct (map fst demoStore)"
  by (simp add: demoStore_def)

lemma demo_keep: "keepCount 5 = 4"
  unfolding keepCount_def of_nat_numeral keepCount_values by simp

lemma demo_products:
  "fmul 2 (1 / 4) = 1 / 2" "fmul 2 (1 / 2) = 1" "fmul 4 1 = 4" "fmul 3 (3 / 4) = 9 / 4"
  "fmul 3 1 = 3"
  by (simp_all add: round64_eval)

lemma demo_cleanup: "map fst (cleanupOldPatterns 5 demoStore) = [''c'', ''f'', ''d'', ''b'']"
  by (simp add: cleanupOldPatterns_def Let_def demo_keep demoStore_def
      entryScore_def demoPattern_def demo_products)

text \<open>Where the rounding shows. The confidence of a function of complexity 2 with
  balanced braces is the binary64 value just below 1. In \<^const>\<open>tieStore\<close> the products of
  \<^verbatim>\<open>a\<close> and \<^verbatim>\<open>b\<close> differ, but both round to 9, so the eviction keeps the one inserted
  first. The relevance of \<^const>\<open>thresholdPattern\<close> is the binary64 value just above that of
  the literal 0.3, although the formula in exact arithmetic stays below 0.3, and the query
  returns the pattern.\<close>

lemma foo_confidence: "calculatePatternConfidence fooFragment = 1 - 1 / 2 ^ 53"
  by (simp add: calculatePatternConfidence_def fooFragment_def calculateComplexity_def
      hasGoodStructure_def)
     (simp add: round64_eval)

lemma tie_confidences:
  "fadd (fadd 0.5 (round64 0.2)) (round64 0.2) = round64 0.9 - 1 / 2 ^ 53"
  "fadd (fadd 0.5 (round64 0.3)) (round64 0.1) = round64 0.9"
  by (simp_all add: round64_eval)

lemma tie_scores: "map entryScore tieStore = [9, 9, 1]"
  by (simp add: tieStore_def demoPattern_def entryScore_def) (simp add: round64_eval)

lemma tie_products:
  "real (frequencia (snd (tieStore ! 0))) * confianca (snd (tieStore ! 0))
     < real (frequencia (snd (tieStore ! 1))) * confianca (snd (tieStore ! 1))"
  by (simp add: tieStore_def demoPattern_def) (simp add: round64_eval)

lemma tie_keep: "keepCount 2 = 1"
  by (simp add: keepCount_def) (simp add: round64_eval)

lemma tie_distinct: "distinct (map fst tieStore)"
  by (simp add: tieStore_def)

lemma tie_cleanup: "cleanupOldPatterns 2 tieStore = [tieStore ! 0]"
  by (simp add: cleanupOldPatterns_def Let_def tie_keep tieStore_def entryScore_def
      demoPattern_def)
     (simp add: round64_eval)

lemma threshold_relevance:
  "calculateRelevance thresholdPattern [''cfg'', ''function'', ''validatePhone(phone)'']
     ''javascript'' = round64 0.3 + 1 / 2 ^ 54"
  by (simp add: calculateRelevance_def thresholdPattern_def Let_def) (simp add: round64_eval)

lemma threshold_formula:
  "specRelevance thresholdPattern [''cfg'', ''function'', ''validatePhone(phone)'']
     ''javascript'' < 0.3"
  by (simp add: specRelevance_def thresholdPattern_def) (simp add: round64_eval)

lemma threshold_suggested:
  "map code (getSuggestionsForContext [(''p'', thresholdPattern)] demoSuggestDocument 0 ''cfg'')
     = [''const cfg = {'']"
proof -
  have tc: "analyzeTypingContext ''cfg'' (extractContext demoSuggestDocument 0)
              = [''cfg'', ''function'', ''validatePhone(phone)'']"
    by (simp add: analyzeTypingContext_def extractContext_def demoSuggestDocument_def
        splitWs_def isSpace_def dedupe_def)
  have "round64 0.3 < calculateRelevance thresholdPattern
                        [''cfg'', ''function'', ''validatePhone(phone)''] ''javascript''"
    unfolding threshold_relevance by simp
  then show ?thesis
    unfolding getSuggestionsForContext_def Let_def tc candidateSuggestions_filter
    by (simp add: demoSuggestDocument_def makeSuggestion_def thresholdPattern_def)
qed

lemma demo_formula:
  "specRelevance (demoPattern ''d'' 3 (3 / 4)) [''function'', ''validatePhone(phone)'']
     ''javascript'' = 157 / 200"
  by (simp add: specRelevance_def demoPattern_def)

lemma validateEmailBody_test: "includesStr validateEmailBody ''test''"
  by (simp add: validateEmailBody_def)
lemma validatePhoneBody_test: "includesStr validatePhoneBody ''test''"
  by (simp add: validatePhoneBody_def)

lemma demo_typing_context:
  "analyzeTypingContext ''a b c'' (extractContext demoSuggestDocument 0)
     = [''function'', ''validatePhone(phone)'']"
  by (simp add: analyzeTypingContext_def extractContext_def demoSuggestDocument_def
      splitWs_def isSpace_def dedupe_def)

lemma demo_relevance:
  "calculateRelevance (demoPattern ''a'' 2 (1 / 4)) [''function'', ''validatePhone(phone)''] ''javascript'' = 2769713770832855 / 4503599627370496"
  "calculateRelevance (demoPattern ''b'' 2 (1 / 2)) [''function'', ''validatePhone(phone)''] ''javascript'' = 7025615418697973 / 18014398509481984"
  "calculateRelevance (demoPattern ''c'' 4 1) [''function'', ''validatePhone(phone)''] ''javascript'' = 990791918021509 / 1125899906842624"
  "calculateRelevance (demoPattern ''d'' 3 (3 / 4)) [''function'', ''validatePhone(phone)''] ''javascript'' = 3535325707485839 / 4503599627370496"
  "calculateRelevance (demoPattern ''e'' 2 (1 / 2)) [''function'', ''validatePhone(phone)''] ''javascript'' = 1553741871442821 / 2251799813685248"
  "calculateRelevance (demoPattern ''f'' 3 1) [''function'', ''validatePhone(phone)''] ''javascript'' = 3873095679538627 / 4503599627370496"
  by (simp_all add: calculateRelevance_def demoPattern_def Let_def)
     (simp_all add: round64_eval)

lemma demo_candidates:
  "map (\<lambda>s. (code s, similarityOr0 s))
     (candidateSuggestions demoStore [''function'', ''validatePhone(phone)''] ''javascript'')
     = [(''a'', 2769713770832855 / 4503599627370496),
        (''b'', 7025615418697973 / 18014398509481984),
        (''c'', 990791918021509 / 1125899906842624),
        (''d'', 3535325707485839 / 4503599627370496),
        (''e'', 1553741871442821 / 2251799813685248),
        (''f'', 3873095679538627 / 4503599627370496)]"
  unfolding candidateSuggestions_filter demoStore_def
  by (simp add: demo_relevance similarityOr0_makeSuggestion round64_literals)
     (simp add: makeSuggestion_def demoPattern_def)


lemma demo_suggestions:
  "map code (getSuggestionsForContext demoStore demoSuggestDocument 0 ''a b c'')
     = [''c'', ''f'', ''d'', ''e'', ''a'']"
  unfolding getSuggestionsForContext_def Let_def demo_typing_context candidateSuggestions_filter
    demoStore_def
  by (simp add: demo_relevance similarityOr0_makeSuggestion demoSuggestDocument_def
        round64_literals)
     (simp add: makeSuggestion_def demoPattern_def)

lemma demo_fragments:
  "map ftype (extractCodeFragments demoDocument (Some demoProgram)) = [funcao, condicao]"
  by (simp add: extractCodeFragments_def demoProgram_def demoDocument_def demoLines_def
      namedDeclarationFragments_def variableFragments_def importFragments_def
      declarationFragment_def hasName_def blockFragments_def blockFragment_def blockTypes_def
      MIN_PATTERN_LENGTH_def Let_def)

section \<open>The claims\<close>

text \<open>
  Claim C1 as stated fails on the pipeline. The first pass over the
  \<^verbatim>\<open>validateEmail\<close> fragment stores a pattern of confidence 1; on the second pass the
  worth-learning filter finds that pattern (similarity 1, above 0.8) with a confidence above
  0.9 and rejects the fragment, so no learn call follows: the map holds one pattern, and
  its frequency is 1, not 2.
\<close>

theorem C1_counterexample:
  "map (frequencia \<circ> snd)
     (processFragments MAX_PATTERNS [] ''javascript''
        [(validateEmailFragment, 10), (validateEmailFragment, 20)]) = [1]"
proof -
  have "processFragments MAX_PATTERNS [] ''javascript''
          [(validateEmailFragment, 10), (validateEmailFragment, 20)]
        = [(generatePatternId validateEmailContent, validateEmailPattern)]"
    by (simp add: validateEmail_worth_empty validateEmail_first_learn
        validateEmail_not_worth_again)
  then show ?thesis by (simp add: validateEmailPattern_def)
qed

text \<open>
  Claim C1, amended: reinforcement by learn calls. Whenever the pattern of a content is
  stored, every sequence of learn calls on fragments with that content raises its
  frequency by exactly 1 per call (by the length of the sequence in all) and leaves the
  keys of the map as they are. A pass of the pipeline over a fragment is that learn call
  when the worth-learning filter accepts the fragment, and leaves the map unchanged
  otherwise; so over any sequence of passes on fragments with that content the frequency
  never decreases and grows by at most 1 per pass. Two learn calls on the
  \<^verbatim>\<open>validateEmail\<close> fragment, starting from the empty map, leave exactly one pattern, of
  frequency 2.
\<close>

theorem C1_learn_calls_reinforce:
  assumes "mapGet st (generatePatternId c) = Some p"
      and "\<forall>x\<in>set calls. content (fst x) = c"
  shows "(\<exists>p'. mapGet (foldl (\<lambda>s x. learnFromFragment cap s (fst x) lang (snd x)) st calls)
                  (generatePatternId c) = Some p'
             \<and> frequencia p' = frequencia p + length calls
             \<and> map fst (foldl (\<lambda>s x. learnFromFragment cap s (fst x) lang (snd x)) st calls)
                 = map fst st)
       \<and> processFragments cap st lang [(f, now)]
           = (if isWorthLearning st f then learnFromFragment cap st f lang now else st)
       \<and> (\<exists>p'. mapGet (processFragments cap st lang calls) (generatePatternId c) = Some p'
             \<and> frequencia p \<le> frequencia p'
             \<and> frequencia p' \<le> frequencia p + length calls)
       \<and> map (frequencia \<circ> snd)
           (learnFromFragment MAX_PATTERNS
              (learnFromFragment MAX_PATTERNS [] validateEmailFragment ''javascript'' 10)
              validateEmailFragment ''javascript'' 20) = [2]"
proof -
  have two: "map (frequencia \<circ> snd)
           (learnFromFragment MAX_PATTERNS
              (learnFromFragment MAX_PATTERNS [] validateEmailFragment ''javascript'' 10)
              validateEmailFragment ''javascript'' 20) = [2]"
    unfolding validateEmail_first_learn learn_existing [OF validateEmail_stored]
    by (simp add: validateEmailPattern_def validateEmailFragment_def)
  from learn_calls_frequency [OF assms] pipeline_frequency [OF assms] two
  show ?thesis by simp
qed

text \<open>
  Witness for C1: with the \<^verbatim>\<open>validateEmail\<close> pattern stored at frequency 1, three more
  learn calls on its fragment bring the frequency to 4.
\<close>

theorem C1_learn_calls_reinforce_witness:
  "\<exists>p'. mapGet (foldl (\<lambda>s x. learnFromFragment MAX_PATTERNS s (fst x) ''javascript'' (snd x))
                 [(generatePatternId validateEmailContent, validateEmailPattern)]
                 [(validateEmailFragment, 20), (validateEmailFragment, 30), (validateEmailFragment, 40)])
             (generatePatternId validateEmailContent) = Some p'
        \<and> frequencia p' = 4"
proof -
  have get: "mapGet [(generatePatternId validateEmailContent, validateEmailPattern)]
               (generatePatternId validateEmailContent) = Some validateEmailPattern"
    by (simp add: mapGet_def)
  have same: "\<forall>x\<in>set [(validateEmailFragment, 20::nat), (validateEmailFragment, 30), (validateEmailFragment, 40)].
                content (fst x) = validateEmailContent"
    by (simp add: validateEmailFragment_def)
  have "\<exists>p'. mapGet (foldl (\<lambda>s x. learnFromFragment MAX_PATTERNS s (fst x) ''javascript'' (snd x))
                 [(generatePatternId validateEmailContent, validateEmailPattern)]
                 [(validateEmailFragment, 20), (validateEmailFragment, 30), (validateEmailFragment, 40)])
             (generatePatternId validateEmailContent) = Some p'
        \<and> frequencia p' = frequencia validateEmailPattern
             + length [(validateEmailFragment, 20::nat), (validateEmailFragment, 30), (validateEmailFragment, 40)]
        \<and> map fst (foldl (\<lambda>s x. learnFromFragment MAX_PATTERNS s (fst x) ''javascript'' (snd x))
                 [(generatePatternId validateEmailContent, validateEmailPattern)]
                 [(validateEmailFragment, 20), (validateEmailFragment, 30), (validateEmailFragment, 40)])
            = map fst [(generatePatternId validateEmailContent, validateEmailPattern)]"
    by (rule C1_learn_calls_reinforce [OF get same, THEN conjunct1])
  then obtain p' where
    "mapGet (foldl (\<lambda>s x. learnFromFragment MAX_PATTERNS s (fst x) ''javascript'' (snd x))
                 [(generatePatternId validateEmailContent, validateEmailPattern)]
                 [(validateEmailFragment, 20), (validateEmailFragment, 30), (validateEmailFragment, 40)])
             (generatePatternId validateEmailContent) = Some p'"
    "frequencia p' = frequencia validateEmailPattern
             + length [(validateEmailFragment, 20::nat), (validateEmailFragment, 30), (validateEmailFragment, 40)]"
    by blast
  moreover have "frequencia validateEmailPattern
             + length [(validateEmailFragment, 20::nat), (validateEmailFragment, 30), (validateEmailFragment, 40)] = 4"
    by (simp add: validateEmailPattern_def)
  ultimately show ?thesis by (intro exI [of _ p']) simp
qed

text \<open>
  Claim C2 as stated fails in both directions. A stored pattern whose code is the
  content of the fragment (similarity 1) does not stop the fragment from being accepted
  when its confidence is 0.65; and a stored pattern of confidence 0.95 whose similarity
  to the fragment is 13/15, below 0.9, makes the filter reject a fragment that passes the
  three other tests.
\<close>

theorem C2_counterexample:
  "isWorthLearning [(generatePatternId configContent, configPattern)] configFragment
   \<and> round64 0.9 \<le> calculateCodeSimilarity (content configFragment) (codigo configPattern)
   \<and> \<not> isWorthLearning [(generatePatternId sumContent, sumPattern)] sumCommentFragment
   \<and> calculateCodeSimilarity (content sumCommentFragment) (codigo sumPattern) < round64 0.9
   \<and> 12 \<le> length (content sumCommentFragment) \<and> lineCount sumCommentFragment \<le> 50
   \<and> 1 \<le> complexity sumCommentFragment"
proof -
  have a: "round64 0.9 \<le> calculateCodeSimilarity (content configFragment) (codigo configPattern)"
    by (simp add: configFragment_def configPattern_def calculateCodeSimilarity_self
        round64_literals)
  have sim: "calculateCodeSimilarity (content sumCommentFragment) (codigo sumPattern)
               = round64 (13 / 15)"
    by (simp add: sumCommentFragment_def sumPattern_def sum_similarity)
  have below: "calculateCodeSimilarity (content sumCommentFragment) (codigo sumPattern)
               < round64 0.9"
    unfolding sim by (simp add: round64_literals)
  have len: "12 \<le> length (content sumCommentFragment)"
    by (simp add: sumCommentFragment_def sumCommentContent_def)
  have lines: "lineCount sumCommentFragment \<le> 50"
    by (simp add: sumCommentFragment_def)
  have cplx: "1 \<le> complexity sumCommentFragment"
    by (simp add: sumCommentFragment_def calculateComplexity_def sumCommentContent_def)
  have "\<not> isWorthLearning [(generatePatternId sumContent, sumPattern)] sumCommentFragment"
    using sim
    by (simp add: isWorthLearning_def sumCommentFragment_def sumPattern_def round64_literals)
  with a below len lines cplx config_worth_again show ?thesis by simp
qed

text \<open>
  Claim C2, amended: the worth-learning policy accepts a fragment if and only if its
  content has at least 12 characters, it has at most 50 lines, its complexity is at least
  1, and the first stored pattern (in iteration order) whose code is more than 0.8 similar
  to the content, if there is one, has a confidence of at most 0.9. The thresholds are 0.8
  on the Jaccard similarity and 0.9 on the confidence of the pattern found.
\<close>

theorem C2_worth_learning_policy:
  "isWorthLearning st f \<longleftrightarrow>
     (12 \<le> length (content f) \<and> lineCount f \<le> 50 \<and> 1 \<le> complexity f \<and>
      (\<forall>i<length st.
         round64 0.8 < calculateCodeSimilarity (content f) (codigo (snd (st ! i))) \<and>
         (\<forall>j<i. \<not> round64 0.8 < calculateCodeSimilarity (content f) (codigo (snd (st ! j))))
         \<longrightarrow> confianca (snd (st ! i)) \<le> round64 0.9))"
proof -
  let ?sim = "\<lambda>i. calculateCodeSimilarity (content f) (codigo (snd (st ! i)))"
  let ?first = "\<lambda>i. round64 0.8 < ?sim i \<and> (\<forall>j<i. \<not> round64 0.8 < ?sim j)"
  have found: "(case findSimilarPattern st (content f) of
                 Some similar \<Rightarrow> (if confianca similar > round64 0.9 then False else True)
               | None \<Rightarrow> True)
              \<longleftrightarrow> (\<forall>i<length st. ?first i \<longrightarrow> confianca (snd (st ! i)) \<le> round64 0.9)"
    using findSimilarPattern_cases [of st "content f"]
  proof
    assume "findSimilarPattern st (content f) = None \<and> (\<forall>i<length st. \<not> round64 0.8 < ?sim i)"
    then show ?thesis by simp
  next
    assume "\<exists>i<length st. findSimilarPattern st (content f) = Some (snd (st ! i)) \<and> ?first i"
    then obtain i where i: "i < length st"
        "findSimilarPattern st (content f) = Some (snd (st ! i))" "?first i" by blast
    have uniq: "i' = i" if "?first i'" for i'
      using that i(3) by (meson not_less_iff_gr_or_eq)
    show ?thesis
    proof
      assume "case findSimilarPattern st (content f) of
                 Some similar \<Rightarrow> (if confianca similar > round64 0.9 then False else True)
               | None \<Rightarrow> True"
      with i(2) have "confianca (snd (st ! i)) \<le> round64 0.9" by (simp split: if_splits)
      with uniq show "\<forall>i<length st. ?first i \<longrightarrow> confianca (snd (st ! i)) \<le> round64 0.9" by blast
    next
      assume "\<forall>i<length st. ?first i \<longrightarrow> confianca (snd (st ! i)) \<le> round64 0.9"
      with i have "confianca (snd (st ! i)) \<le> round64 0.9" by blast
      with i(2) show "case findSimilarPattern st (content f) of
                 Some similar \<Rightarrow> (if confianca similar > round64 0.9 then False else True)
               | None \<Rightarrow> True" by simp
    qed
  qed
  show ?thesis
    unfolding isWorthLearning_def MIN_PATTERN_LENGTH_def
    using found by (auto simp: not_less)
qed

text \<open>
  Witness for C2: the stored \<^verbatim>\<open>config\<close> pattern is the first similar pattern for its own
  fragment and has confidence 0.65, so the fragment is accepted.
\<close>

theorem C2_witness:
  "isWorthLearning [(generatePatternId configContent, configPattern)] configFragment"
proof -
  have idx: "\<forall>i<length [(generatePatternId configContent, configPattern)].
     round64 0.8 < calculateCodeSimilarity (content configFragment)
             (codigo (snd ([(generatePatternId configContent, configPattern)] ! i))) \<and>
     (\<forall>j<i. \<not> round64 0.8 < calculateCodeSimilarity (content configFragment)
             (codigo (snd ([(generatePatternId configContent, configPattern)] ! j))))
     \<longrightarrow> confianca (snd ([(generatePatternId configContent, configPattern)] ! i)) \<le> round64 0.9"
    by (simp add: configPattern_def round64_literals)
  have "12 \<le> length (content configFragment) \<and> lineCount configFragment \<le> 50
        \<and> 1 \<le> complexity configFragment"
    by (simp add: configFragment_def config_length config_complexity)
  with idx show ?thesis
    using C2_worth_learning_policy [of "[(generatePatternId configContent, configPattern)]" configFragment]
    by blast
qed

text \<open>
  Claim C3: eviction. For a map with distinct keys, after \<^const>\<open>cleanupOldPatterns\<close> the
  size is at most the capacity; it is the smaller of \<^const>\<open>keepCount\<close> of the capacity
  and the old size, hence exactly \<^verbatim>\<open>Math.floor(capacity * 0.8)\<close> when the old size exceeds
  the capacity. That number is \<open>\<lfloor>0.8 \<times> capacity\<rfloor>\<close> for every capacity below \<open>2 ^ 50\<close>, and
  800 for the capacity 1000 of the source. The retained entries are entries of the old
  map, in descending order of the score \<^verbatim>\<open>frequencia * confianca\<close> that the source
  computes (the binary64 product); every retained entry scores at least as high as every
  evicted one, and where a retained and an evicted entry have the same score, the
  retained one was inserted first. The score is monotone in the exact product, so an
  evicted entry can exceed a retained one in the exact product only where the two products
  round to the same score. A learn call keeps the size within the capacity.
\<close>

theorem C3_eviction_keeps_top:
  assumes "distinct (map fst st)"
  shows "length (cleanupOldPatterns cap st) \<le> cap
       \<and> length (cleanupOldPatterns cap st) = min (keepCount cap) (length st)
       \<and> (cap < length st \<longrightarrow> length (cleanupOldPatterns cap st) = keepCount cap)
       \<and> (cap < 2 ^ 50 \<longrightarrow> int (keepCount cap) = \<lfloor>0.8 * real cap\<rfloor>)
       \<and> keepCount MAX_PATTERNS = 800
       \<and> set (cleanupOldPatterns cap st) \<subseteq> set st
       \<and> sorted_wrt (\<lambda>a b. entryScore b \<le> entryScore a) (cleanupOldPatterns cap st)
       \<and> (\<forall>e\<in>set (cleanupOldPatterns cap st). \<forall>e'\<in>set st - set (cleanupOldPatterns cap st).
             entryScore e' \<le> entryScore e
             \<and> (entryScore e' = entryScore e \<longrightarrow> (\<exists>as bs cs. st = as @ e # bs @ e' # cs))
             \<and> (real (frequencia (snd e)) * confianca (snd e)
                   < real (frequencia (snd e')) * confianca (snd e')
                 \<longrightarrow> entryScore e' = entryScore e))
       \<and> (length st \<le> cap \<longrightarrow> length (learnFromFragment cap st f lang now) \<le> cap)"
proof -
  let ?key = "\<lambda>e. - entryScore e"
  let ?ys = "sort_key ?key st"
  let ?n = "keepCount cap"
  have eq: "cleanupOldPatterns cap st = take ?n ?ys"
    by (rule cleanupOldPatterns_take [OF assms])
  have len: "length (cleanupOldPatterns cap st) = min ?n (length st)"
    by (simp add: eq)
  have le: "length (cleanupOldPatterns cap st) \<le> cap"
    using keepCount_le [of cap] by (simp add: len)
  have full: "cap < length st \<longrightarrow> length (cleanupOldPatterns cap st) = ?n"
    using keepCount_le [of cap] by (simp add: len)
  have sub: "set (cleanupOldPatterns cap st) \<subseteq> set st"
    using set_take_subset [of ?n ?ys] by (simp add: eq)
  have srt: "sorted (map ?key ?ys)" by simp
  then have "sorted_wrt (\<lambda>a b. ?key a \<le> ?key b) ?ys" by (simp add: sorted_map)
  then have "sorted_wrt (\<lambda>a b. ?key a \<le> ?key b) (take ?n ?ys)"
    by (rule sorted_wrt_take)
  then have desc: "sorted_wrt (\<lambda>a b. entryScore b \<le> entryScore a) (cleanupOldPatterns cap st)"
    by (simp add: eq)
  have top: "\<forall>e\<in>set (cleanupOldPatterns cap st). \<forall>e'\<in>set st - set (cleanupOldPatterns cap st).
             entryScore e' \<le> entryScore e
             \<and> (entryScore e' = entryScore e \<longrightarrow> (\<exists>as bs cs. st = as @ e # bs @ e' # cs))
             \<and> (real (frequencia (snd e)) * confianca (snd e)
                   < real (frequencia (snd e')) * confianca (snd e')
                 \<longrightarrow> entryScore e' = entryScore e)"
  proof (intro ballI)
    fix e e'
    assume e: "e \<in> set (cleanupOldPatterns cap st)"
      and e': "e' \<in> set st - set (cleanupOldPatterns cap st)"
    from e have et: "e \<in> set (take ?n ?ys)" by (simp add: eq)
    have "set ?ys = set (take ?n ?ys) \<union> set (drop ?n ?ys)"
      by (metis append_take_drop_id set_append)
    with e' have ed: "e' \<in> set (drop ?n ?ys)" by (auto simp: eq)
    from sorted_take_drop_le [OF srt et ed] have le': "entryScore e' \<le> entryScore e" by simp
    moreover have "\<exists>as bs cs. st = as @ e # bs @ e' # cs" if "entryScore e' = entryScore e"
      using stable_tie [OF et ed] that by simp
    moreover have "entryScore e' = entryScore e"
      if "real (frequencia (snd e)) * confianca (snd e)
            < real (frequencia (snd e')) * confianca (snd e')"
      using entryScore_mono [of e e'] that le' by simp
    ultimately show "entryScore e' \<le> entryScore e
             \<and> (entryScore e' = entryScore e \<longrightarrow> (\<exists>as bs cs. st = as @ e # bs @ e' # cs))
             \<and> (real (frequencia (snd e)) * confianca (snd e)
                   < real (frequencia (snd e')) * confianca (snd e')
                 \<longrightarrow> entryScore e' = entryScore e)"
      by blast
  qed
  have inv: "length st \<le> cap \<longrightarrow> length (learnFromFragment cap st f lang now) \<le> cap"
  proof
    assume bound: "length st \<le> cap"
    show "length (learnFromFragment cap st f lang now) \<le> cap"
    proof (cases "mapGet st (generatePatternId (content f))")
      case (Some p)
      then have "map_of st (generatePatternId (content f)) = Some p" by (simp add: mapGet_def)
      from length_mapSet_present [OF this] bound show ?thesis
        by (simp add: learn_existing [OF Some])
    next
      case None
      define st' where "st' = mapSet st (generatePatternId (content f))
        \<lparr> pid = generatePatternId (content f), codigo = content f, contexto = fcontext f,
          frequencia = 1, ultimoUso = now,
          gatilhos = extractTriggers (content f) (fcontext f), tipoArquivo = lang,
          confianca = calculatePatternConfidence f, variacoes = [] \<rparr>"
      have d': "distinct (map fst st')" unfolding st'_def by (rule distinct_mapSet [OF assms])
      have "length (cleanupOldPatterns cap st') \<le> cap"
        using keepCount_le [of cap] by (simp add: cleanupOldPatterns_take [OF d'])
      moreover have "learnFromFragment cap st f lang now
          = (if length st' > cap then cleanupOldPatterns cap st' else st')"
        using None by (simp add: learnFromFragment_def Let_def st'_def)
      ultimately show ?thesis by simp
    qed
  qed
  have fl: "cap < 2 ^ 50 \<longrightarrow> int (keepCount cap) = \<lfloor>0.8 * real cap\<rfloor>"
    using keepCount_floor [of cap] by blast
  from le len full fl keepCount_default sub desc top inv
  show ?thesis by blast
qed

text \<open>
  Witness for C3: six patterns and a capacity of five; four are kept (the integer part of
  0.8 times 5), the four best, and of the tied entries \<^verbatim>\<open>b\<close> and \<^verbatim>\<open>e\<close> the earlier one
  stays. In \<^const>\<open>tieStore\<close>, with a capacity of two, \<^verbatim>\<open>a\<close> alone is kept: the evicted \<^verbatim>\<open>b\<close>
  has the greater exact product, so the two have the same score.
\<close>

theorem C3_eviction_keeps_top_witness:
  "distinct (map fst demoStore) \<and> 5 < length demoStore
   \<and> length (cleanupOldPatterns 5 demoStore) = 4
   \<and> map fst (cleanupOldPatterns 5 demoStore) = [''c'', ''f'', ''d'', ''b'']
   \<and> int (keepCount 5) = \<lfloor>0.8 * real 5\<rfloor>
   \<and> map fst (cleanupOldPatterns 2 tieStore) = [''a'']
   \<and> entryScore (tieStore ! 1) = entryScore (tieStore ! 0)"
proof -
  have big: "5 < length demoStore" by (simp add: demoStore_def)
  have small: "(5::nat) < 2 ^ 50" by simp
  from C3_eviction_keeps_top [OF demo_distinct, of 5] big
  have "length (cleanupOldPatterns 5 demoStore) = keepCount 5" by blast
  moreover from C3_eviction_keeps_top [OF demo_distinct, of 5] small
  have "int (keepCount 5) = \<lfloor>0.8 * real 5\<rfloor>" by blast
  moreover have kept: "tieStore ! 0 \<in> set (cleanupOldPatterns 2 tieStore)"
    by (simp add: tie_cleanup)
  moreover have gone: "tieStore ! 1 \<in> set tieStore - set (cleanupOldPatterns 2 tieStore)"
    unfolding tie_cleanup by (simp add: tieStore_def demoPattern_def)
  moreover from C3_eviction_keeps_top [OF tie_distinct, of 2] kept gone tie_products
  have "entryScore (tieStore ! 1) = entryScore (tieStore ! 0)" by blast
  moreover have "map fst (cleanupOldPatterns 2 tieStore) = [''a'']"
    unfolding tie_cleanup by (simp add: tieStore_def)
  ultimately show ?thesis using demo_distinct big demo_keep demo_cleanup by simp
qed

text \<open>
  Claim C4: relevance and ranking. The relevance of a stored pattern is 0.2 if its
  language tag is the language of the document, plus 0.3 times its confidence, plus the
  smaller of 0.2 and 0.02 times its frequency, plus 0.3 times the fraction of its triggers
  that contain or are contained in a token of the typing context (nothing for a pattern
  without triggers), the sum being clamped to at most 1. The sum is formed from left to
  right, and the literals, every product, the quotient and every sum are binary64 values,
  as in the source; for a confidence between 0 and 1 the result is within \<open>2 ^ -49\<close> of
  the value that the formula has in exact arithmetic (\<^const>\<open>specRelevance\<close>). The
  candidates are the suggestions of exactly the patterns whose relevance is strictly above
  the literal 0.3, each carrying its relevance as similarity.
  The query returns candidates only, five of them or all if there are fewer, in
  descending order of relevance, and no candidate left out is more relevant than one
  returned.
\<close>

theorem C4_relevance_ranking:
  "calculateRelevance p typingContext lang =
     (let base = fadd (fadd (if tipoArquivo p = lang then round64 0.2 else 0)
                            (fmul (confianca p) (round64 0.3)))
                      (min (round64 0.2) (fmul (real (frequencia p)) (round64 0.02)));
          matching = length (filter (\<lambda>trigger. \<exists>word\<in>set typingContext.
                                        includesStr word trigger \<or> includesStr trigger word)
                               (gatilhos p))
      in min 1 (if gatilhos p = [] then base
                else fadd base (fmul (fdiv (real matching) (real (length (gatilhos p))))
                                  (round64 0.3))))
    \<and> (0 \<le> confianca p \<and> confianca p \<le> 1 \<longrightarrow>
         \<bar>calculateRelevance p typingContext lang - specRelevance p typingContext lang\<bar>
           \<le> 1 / 2 ^ 49)
    \<and> candidateSuggestions st typingContext lang
         = map (\<lambda>e. makeSuggestion (snd e) (calculateRelevance (snd e) typingContext lang))
             (filter (\<lambda>e. round64 0.3 < calculateRelevance (snd e) typingContext lang) st)
    \<and> similarityOr0 (makeSuggestion p r) = r
    \<and> (let cands = candidateSuggestions st
                      (analyzeTypingContext currentLine (extractContext document positionLine))
                      (languageId document);
            result = getSuggestionsForContext st document positionLine currentLine
        in set result \<subseteq> set cands
           \<and> length result = min 5 (length cands)
           \<and> sorted_wrt (\<lambda>a b. similarityOr0 b \<le> similarityOr0 a) result
           \<and> (\<forall>s\<in>set result. round64 0.3 < similarityOr0 s
                 \<and> (\<forall>c\<in>set cands - set result. similarityOr0 c \<le> similarityOr0 s)))"
proof -
  let ?key = "\<lambda>s. - similarityOr0 s"
  let ?c = "candidateSuggestions st
              (analyzeTypingContext currentLine (extractContext document positionLine))
              (languageId document)"
  let ?ys = "sort_key ?key ?c"
  have res: "getSuggestionsForContext st document positionLine currentLine = take 5 ?ys"
    by (simp add: getSuggestionsForContext_def Let_def)
  have sub: "set (take 5 ?ys) \<subseteq> set ?c"
    using set_take_subset [of 5 ?ys] by simp
  have len: "length (take 5 ?ys) = min 5 (length ?c)" by simp
  have srt: "sorted (map ?key ?ys)" by simp
  then have "sorted_wrt (\<lambda>a b. ?key a \<le> ?key b) ?ys" by (simp add: sorted_map)
  then have "sorted_wrt (\<lambda>a b. ?key a \<le> ?key b) (take 5 ?ys)" by (rule sorted_wrt_take)
  then have desc: "sorted_wrt (\<lambda>a b. similarityOr0 b \<le> similarityOr0 a) (take 5 ?ys)" by simp
  have top: "\<forall>s\<in>set (take 5 ?ys). round64 0.3 < similarityOr0 s
          \<and> (\<forall>c\<in>set ?c - set (take 5 ?ys). similarityOr0 c \<le> similarityOr0 s)"
  proof (intro ballI conjI)
    fix s assume s: "s \<in> set (take 5 ?ys)"
    with sub show "round64 0.3 < similarityOr0 s" using candidate_relevant by blast
    fix c assume c: "c \<in> set ?c - set (take 5 ?ys)"
    have "set ?ys = set (take 5 ?ys) \<union> set (drop 5 ?ys)"
      by (metis append_take_drop_id set_append)
    with c have "c \<in> set (drop 5 ?ys)" by auto
    from sorted_take_drop_le [OF srt s this] show "similarityOr0 c \<le> similarityOr0 s" by simp
  qed
  have err: "0 \<le> confianca p \<and> confianca p \<le> 1 \<longrightarrow>
         \<bar>calculateRelevance p typingContext lang - specRelevance p typingContext lang\<bar>
           \<le> 1 / 2 ^ 49"
    using relevance_error [of p typingContext lang] by blast
  show ?thesis
    unfolding Let_def res
    by (intro conjI calculateRelevance_formula [unfolded Let_def] err
        candidateSuggestions_filter similarityOr0_makeSuggestion sub len desc top)
qed

text \<open>
  Witness for C4: six stored patterns, all candidates for the context of a function head;
  the five most relevant are returned, best first. The relevance of the pattern \<^verbatim>\<open>d\<close>
  (confidence 0.75, frequency 3, its trigger matching) is within \<open>2 ^ -49\<close> of 0.785.
\<close>

theorem C4_relevance_ranking_witness:
  "map code (getSuggestionsForContext demoStore demoSuggestDocument 0 ''a b c'')
     = [''c'', ''f'', ''d'', ''e'', ''a'']
   \<and> length (getSuggestionsForContext demoStore demoSuggestDocument 0 ''a b c'') = 5
   \<and> round64 0.3 < similarityOr0 (hd (getSuggestionsForContext demoStore demoSuggestDocument 0 ''a b c''))
   \<and> \<bar>calculateRelevance (demoPattern ''d'' 3 (3 / 4)) [''function'', ''validatePhone(phone)'']
         ''javascript'' - 157 / 200\<bar> \<le> 1 / 2 ^ 49"
proof -
  let ?result = "getSuggestionsForContext demoStore demoSuggestDocument 0 ''a b c''"
  have conf: "0 \<le> confianca (demoPattern ''d'' 3 (3 / 4))
              \<and> confianca (demoPattern ''d'' 3 (3 / 4)) \<le> 1"
    by (simp add: demoPattern_def)
  from C4_relevance_ranking [where p = "demoPattern ''d'' 3 (3 / 4)"
      and typingContext = "[''function'', ''validatePhone(phone)'']" and lang = "''javascript''"]
    conf
  have close: "\<bar>calculateRelevance (demoPattern ''d'' 3 (3 / 4))
                   [''function'', ''validatePhone(phone)''] ''javascript'' - 157 / 200\<bar>
                 \<le> 1 / 2 ^ 49"
    unfolding demo_formula by blast
  from C4_relevance_ranking [where st = demoStore and document = demoSuggestDocument
      and positionLine = 0 and currentLine = "''a b c''"]
  have all: "\<forall>s\<in>set ?result. round64 0.3 < similarityOr0 s"
    unfolding Let_def by blast
  have "length (map code ?result) = length [''c'', ''f'', ''d'', ''e'', ''a'']"
    by (simp only: demo_suggestions)
  then have len: "length ?result = 5" by simp
  then have "?result \<noteq> []" by auto
  then have "hd ?result \<in> set ?result" by simp
  with all have "round64 0.3 < similarityOr0 (hd ?result)" by blast
  with demo_suggestions len close show ?thesis by simp
qed

text \<open>
  Claim C5: the structural similarity of the syntax nodes of \<^verbatim>\<open>validateEmail\<close> and
  \<^verbatim>\<open>validatePhone\<close> is a number strictly greater than 0.5.
\<close>

theorem C5_validate_functions_similar: "\<exists>s. calculateSimilarity validateEmailNode validatePhoneNode = Some s \<and> 0.5 < s"
proof -
  from function_similarity_lower_bound [OF _ _ validateEmailBody_test validatePhoneBody_test, of "[''Identifier'']" "[''Identifier'']" "Some ''validateEmail''" "Some ''validatePhone''"]
  obtain s where "calculateSimilarity validateEmailNode validatePhoneNode = Some s" "0.55 \<le> s"
    by (auto simp: validateEmailNode_def validatePhoneNode_def)
  then show ?thesis by (intro exI [of _ s]) simp
qed

text \<open>
  Claim C6: the classifier maps \<^verbatim>\<open>function calcular(a, b) {\<close> to
  \<^verbatim>\<open>function_declaration\<close>, \<^verbatim>\<open>  result.map(x => x)\<close> to \<^verbatim>\<open>method_call\<close>, and
  \<^verbatim>\<open>// just a comment\<close> to no classification, whatever the surrounding context is.
\<close>

theorem C6_classification_examples:
  "identifyCurrentPattern ''function calcular(a, b) {'' contextCode = Some ''function_declaration''
   \<and> identifyCurrentPattern ''  result.map(x => x)'' contextCode = Some ''method_call''
   \<and> identifyCurrentPattern ''// just a comment'' contextCode = None"
proof -
  have t1: "trim ''function calcular(a, b) {'' = ''function calcular(a, b) {''"
    by (simp add: trim_def isSpace_def)
  have t2: "trim ''  result.map(x => x)'' = ''result.map(x => x)''"
    by (simp add: trim_def isSpace_def)
  have t3: "trim ''// just a comment'' = ''// just a comment''"
    by (simp add: trim_def isSpace_def)
  have a: "identifyCurrentPattern ''function calcular(a, b) {'' contextCode = Some ''function_declaration''"
    unfolding identifyCurrentPattern_def t1 by simp
  have b: "identifyCurrentPattern ''  result.map(x => x)'' contextCode = Some ''method_call''"
    unfolding identifyCurrentPattern_def t2
    by (simp add: matchesDeclaration_def matchHere_def)
  have c: "identifyCurrentPattern ''// just a comment'' contextCode = None"
    unfolding identifyCurrentPattern_def t3
    by (simp add: matchesDeclaration_def matchHere_def)
  from a b c show ?thesis by simp
qed

text \<open>
  Claim C7: whatever the parser does on it (throw, or return any list of statements) and
  whatever patterns are known, snippet extraction returns a snippet for every source
  text and never raises, and the code of the snippet is the source text verbatim. For the
  malformed snippet \<^verbatim>\<open>function test( { // malformed\<close>, on which the parser throws (or
  finds no statement), the result is the fallback snippet, titled with the first line.
\<close>

theorem C7_malformed_snippet_fallback:
  "(\<exists>s. suggestSnippetFromCode parseScript patterns src = Inr s \<and> code s = src)
   \<and> suggestSnippetFromCode (\<lambda>src. Inl ParseError) patterns malformedSnippet
       = Inr \<lparr> title = Some ''function test( { // malformed'',
                description = Some ''Auto-generated snippet'',
                language = Some ''javascript'',
                code = ''function test( { // malformed'',
                pattern = None, similarity = None \<rparr>
   \<and> suggestSnippetFromCode (\<lambda>src. Inr []) patterns malformedSnippet
       = suggestSnippetFromCode (\<lambda>src. Inl ParseError) patterns malformedSnippet"
proof -
  have "\<exists>s. suggestSnippetFromCode parseScript patterns src = Inr s \<and> code s = src"
    by (auto simp: suggestSnippetFromCode_def snippetTryBlock_def code_createBasicSnippet Let_def
        split: sum.splits list.splits)
  moreover have "suggestSnippetFromCode (\<lambda>src. Inl ParseError) patterns malformedSnippet
       = Inr (createBasicSnippet malformedSnippet)"
    by (simp add: suggestSnippetFromCode_def snippetTryBlock_def)
  moreover have "suggestSnippetFromCode (\<lambda>src. Inr []) patterns malformedSnippet
       = Inr (createBasicSnippet malformedSnippet)"
    by (simp add: suggestSnippetFromCode_def snippetTryBlock_def)
  ultimately show ?thesis by (simp add: malformed_fallback)
qed

text \<open>
  Claim C8: a learn call whose fragment hashes to a stored id leaves the id, the code,
  the context, the triggers, the language tag and the confidence of the pattern unchanged;
  it raises the frequency by 1, sets the time of last use, and leaves the variants as they
  are or appends the content of the fragment. No other pattern and no key changes.
\<close>

theorem C8_reinforcement_frame:
  assumes "mapGet st (generatePatternId (content f)) = Some p"
  shows "\<exists>p'. mapGet (learnFromFragment cap st f lang now) (generatePatternId (content f)) = Some p'
           \<and> pid p' = pid p \<and> codigo p' = codigo p \<and> contexto p' = contexto p
           \<and> gatilhos p' = gatilhos p \<and> tipoArquivo p' = tipoArquivo p
           \<and> confianca p' = confianca p
           \<and> frequencia p' = frequencia p + 1 \<and> ultimoUso p' = now
           \<and> (variacoes p' = variacoes p \<or> variacoes p' = variacoes p @ [content f])
           \<and> (\<forall>k. k \<noteq> generatePatternId (content f) \<longrightarrow>
                  mapGet (learnFromFragment cap st f lang now) k = mapGet st k)
           \<and> map fst (learnFromFragment cap st f lang now) = map fst st"
proof -
  have others: "\<forall>k. k \<noteq> generatePatternId (content f) \<longrightarrow>
                  mapGet (learnFromFragment cap st f lang now) k = mapGet st k"
    by (simp add: learn_existing [OF assms] mapGet_mapSet)
  show ?thesis
    using learn_existing_get [OF assms, of cap lang now] learn_existing_keys [OF assms, of cap lang now]
      others
    by simp
qed

text \<open>
  Witness for C8: reinforcing the stored \<^verbatim>\<open>validateEmail\<close> pattern from a TypeScript
  document at clock reading 20.
\<close>

theorem C8_reinforcement_frame_witness:
  "\<exists>p'. mapGet (learnFromFragment MAX_PATTERNS
                  [(generatePatternId validateEmailContent, validateEmailPattern)]
                  validateEmailFragment ''typescript'' 20)
             (generatePatternId validateEmailContent) = Some p'
        \<and> codigo p' = validateEmailContent \<and> tipoArquivo p' = ''javascript''
        \<and> confianca p' = 1 \<and> frequencia p' = 2 \<and> ultimoUso p' = 20"
proof -
  from C8_reinforcement_frame [OF validateEmail_stored, of MAX_PATTERNS "''typescript''" 20]
  obtain p' where
    "mapGet (learnFromFragment MAX_PATTERNS
                  [(generatePatternId validateEmailContent, validateEmailPattern)]
                  validateEmailFragment ''typescript'' 20)
             (generatePatternId (content validateEmailFragment)) = Some p'"
    "codigo p' = codigo validateEmailPattern" "tipoArquivo p' = tipoArquivo validateEmailPattern"
    "confianca p' = confianca validateEmailPattern"
    "frequencia p' = frequencia validateEmailPattern + 1" "ultimoUso p' = 20"
    by blast
  then show ?thesis
    by (intro exI [of _ p']) (simp add: validateEmailPattern_def validateEmailFragment_def)
qed

text \<open>
  Claim C9 fails on the code. The variants of a pattern do stay pairwise distinct
  (\<open>learnFromFragment_variants_distinct\<close>), but two passes of the pipeline over the same
  \<^verbatim>\<open>config\<close> fragment store its content as the canonical code of the pattern and then,
  on the reinforcement, append the very same text as a variant: the test looks only at the
  variants, which are empty at creation, and not at the canonical code.
\<close>

theorem C9_canonical_code_becomes_variant:
  "map (codigo \<circ> snd)
     (processFragments MAX_PATTERNS [] ''javascript'' [(configFragment, 10), (configFragment, 20)])
     = [content configFragment]
   \<and> map (variacoes \<circ> snd)
     (processFragments MAX_PATTERNS [] ''javascript'' [(configFragment, 10), (configFragment, 20)])
     = [[content configFragment]]"
  unfolding config_two_passes by (simp add: configPattern_def configFragment_def)

text \<open>
  Claim C10: the complexity of every string is at least 1; every import fragment has
  complexity exactly 1; hence every fragment that the extractor produces has a
  complexity of at least 1, the filter never rejects it for its complexity (the reason
  \<^verbatim>\<open>complexidade\<close> is never given), and the filter decides on the three other tests alone.
\<close>

theorem C10_complexity_at_least_one:
  "1 \<le> calculateComplexity c
   \<and> (\<forall>f\<in>set (extractImports document t). complexity f = 1)
   \<and> (\<forall>f\<in>set (extractCodeFragments document tree).
         1 \<le> complexity f
         \<and> reasonNotWorth st f \<noteq> ''complexidade''
         \<and> (isWorthLearning st f \<longleftrightarrow>
              \<not> length (content f) < MIN_PATTERN_LENGTH \<and> \<not> lineCount f > 50
              \<and> (case findSimilarPattern st (content f) of
                    Some similar \<Rightarrow> \<not> confianca similar > round64 0.9
                  | None \<Rightarrow> True)))"
proof -
  have frag: "1 \<le> complexity f
         \<and> reasonNotWorth st f \<noteq> ''complexidade''
         \<and> (isWorthLearning st f \<longleftrightarrow>
              \<not> length (content f) < MIN_PATTERN_LENGTH \<and> \<not> lineCount f > 50
              \<and> (case findSimilarPattern st (content f) of
                    Some similar \<Rightarrow> \<not> confianca similar > round64 0.9
                  | None \<Rightarrow> True))"
    if "f \<in> set (extractCodeFragments document tree)" for f
  proof -
    from extractCodeFragments_complexity [OF that] have c: "\<not> complexity f < 1" by simp
    then show ?thesis
      by (auto simp: reasonNotWorth_def isWorthLearning_def split: option.splits)
  qed
  show ?thesis
    using calculateComplexity_ge_1 [of c] extractImports_complexity [of _ document t] frag
    by blast
qed

text \<open>
  Witness for C10: the extractor finds a function and a conditional in a six-line
  document, both of complexity at least 1.
\<close>

theorem C10_complexity_at_least_one_witness:
  "map ftype (extractCodeFragments demoDocument (Some demoProgram)) = [funcao, condicao]
   \<and> 1 \<le> complexity (hd (extractCodeFragments demoDocument (Some demoProgram)))
   \<and> reasonNotWorth [] (hd (extractCodeFragments demoDocument (Some demoProgram)))
        \<noteq> ''complexidade''"
proof -
  let ?frags = "extractCodeFragments demoDocument (Some demoProgram)"
  from demo_fragments have "?frags \<noteq> []" by auto
  then have "hd ?frags \<in> set ?frags" by simp
  with C10_complexity_at_least_one [of "[]" demoDocument demoProgram "Some demoProgram" "[]"]
  have "1 \<le> complexity (hd ?frags) \<and> reasonNotWorth [] (hd ?frags) \<noteq> ''complexidade''"
    by blast
  with demo_fragments show ?thesis by simp
qed

end
